theory Spec2Isabelle
  imports Complex_Main "HOL-Library.AList"
begin

section \<open>Data model\<close>

text \<open>
  The game keeps its state in plain JavaScript objects. A number is a \<open>real\<close>; counters
  that the code only ever increments by one and uses as exponents or multiplicities
  (levels, the number of auto-bakers, bake counts) are \<open>nat\<close>; \<open>totalBaked\<close>, which also
  receives a floored estimate, is \<open>int\<close>.

  JavaScript computes in IEEE doubles. Wherever the code turns a product, sum or quotient
  into an integer with \<open>Math.ceil\<close> or \<open>Math.floor\<close>, the rounding of the double decides
  the integer, so there the model computes as the code does, with the operations of the
  section on doubles below. Sums and differences of amounts of money and of production,
  and the cached rate \<open>moneyPerSecond\<close>, are exact in the model: on whole amounts below
  \<open>2^53\<close> they are exact in doubles too, and elsewhere they differ from the code's by
  rounding errors only.

  An object used as a dictionary (\<open>recipes\<close>, \<open>upgrades\<close>, \<open>milestones\<close>) is an
  association list in insertion order: \<open>for (let k in obj)\<close> walks the list, \<open>obj[k]\<close>
  is \<open>map_of\<close>, and writing through \<open>obj[k]\<close> is \<open>AList.update\<close>, which keeps the position.
  The list holds the object's own properties. In the code \<open>obj[k]\<close> also finds what every
  object inherits from \<open>Object.prototype\<close> (\<open>constructor\<close>, \<open>toString\<close> and the other names
  of \<open>Object_prototype_names\<close> below): with such an id the code goes on with a built-in
  object, whose properties are not part of the game state. The model covers the calls
  whose id is an own key or no property at all; there \<open>map_of\<close> is the code's lookup.
  The built-in objects are taken as the engine creates them: the calls that the model
  covers never write to them.
\<close>

record recipe =
  recipe_id :: string
  recipe_name :: string
  recipe_icon :: string
  recipe_baseCost :: real
  recipe_currentCost :: real
  bakeTime :: real
  baseProduction :: real
  currentProduction :: real
  unlocked :: bool
  bakeCount :: nat
  totalProduction :: real
  recipe_level :: nat
  upgradeCost :: real

datatype upgrade_type = production | capacity | reputation_type

record upgrade =
  upgrade_id :: string
  upgrade_name :: string
  upgrade_icon :: string
  upgrade_level :: nat
  maxLevel :: nat
  baseCost :: real
  currentCost :: real
  description :: string
  bonus :: real
  upgrade_kind :: upgrade_type

record milestone =
  milestone_id :: string
  milestone_name :: string
  completed :: bool
  requirement :: "real option"

text \<open>The twenty fields that \<open>SaveManager.save\<close> writes; \<open>GameState\<close> has three more.\<close>

record SavedState =
  money :: real
  totalMoneyEarned :: real
  moneyPerSecond :: real
  totalBaked :: int
  currentRecipe :: "recipe option"
  recipes :: "(string \<times> recipe) list"
  autoBakers :: nat
  autoBakerLevel :: nat
  autoBakerCost :: real
  upgrades :: "(string \<times> upgrade) list"
  reputation :: real
  customersServed :: real
  customerSatisfaction :: real
  level :: real
  experience :: real
  milestones :: "(string \<times> milestone) list"
  lastSaveTime :: real
  lastPlayTime :: real
  totalPlayTime :: real
  gameStartTime :: real

record GameState = SavedState +
  autoBakerProductionBonus :: real
  maxReputation :: real
  experiencePerLevel :: real

text \<open>Reading a property of \<open>undefined\<close> throws; no other exception arises in the engine.\<close>

datatype error = TypeError

section \<open>Doubles\<close>

text \<open>
  \<open>double x\<close> is the IEEE binary64 number nearest to \<open>x\<close>, ties to the even significand:
  with \<open>2^e \<le> |x| < 2^(e+1)\<close> the doubles around \<open>x\<close> are the multiples of \<open>2^(e-52)\<close>, and
  of \<open>2^(-1074)\<close> in the subnormal range. Overflow to \<open>Infinity\<close>, from \<open>2^1024\<close> on, is left
  out.
\<close>

definition pow2 :: "int \<Rightarrow> real" where
  "pow2 e = (if 0 \<le> e then 2 ^ nat e else 1 / 2 ^ nat (- e))"

text \<open>The binary exponent \<open>e\<close> of a positive number, \<open>2^e \<le> x < 2^(e+1)\<close>; 0 otherwise.\<close>

function exponent :: "real \<Rightarrow> int" where
  "exponent x =
     (if 2 \<le> x then exponent (x / 2) + 1
      else if 0 < x \<and> x < 1 then exponent (x * 2) - 1
      else 0)"
  by pat_completeness auto
termination
proof (relation "measure (\<lambda>x. if 2 \<le> x then nat \<lfloor>x\<rfloor> else nat \<lceil>1 / x\<rceil>)")
  show "wf (measure (\<lambda>x. if 2 \<le> x then nat \<lfloor>x\<rfloor> else nat \<lceil>1 / x\<rceil>))" by simp
next
  fix x :: real
  assume x: "2 \<le> x"
  show "(x / 2, x) \<in> measure (\<lambda>x. if 2 \<le> x then nat \<lfloor>x\<rfloor> else nat \<lceil>1 / x\<rceil>)"
  proof (cases "2 \<le> x / 2")
    case True
    then have "\<lfloor>x / 2\<rfloor> < \<lfloor>x\<rfloor>" by linarith
    moreover from x have "0 < \<lfloor>x\<rfloor>" by linarith
    ultimately show ?thesis using True x by simp
  next
    case False
    from x have "2 / x \<le> 1" by simp
    then have "\<lceil>2 / x\<rceil> \<le> 1" by (simp add: ceiling_le_one)
    moreover from x have "2 \<le> \<lfloor>x\<rfloor>" by linarith
    ultimately have "\<lceil>2 / x\<rceil> < \<lfloor>x\<rfloor>" by linarith
    with False x show ?thesis by simp
  qed
next
  fix x :: real
  assume a: "\<not> 2 \<le> x" and b: "0 < x \<and> x < 1"
  then have lt: "\<not> 2 \<le> x * 2" by simp
  have half: "\<lceil>z / 2\<rceil> < \<lceil>z\<rceil>" if "1 < z" for z :: real
  proof -
    from that have n: "2 \<le> \<lceil>z\<rceil>" by linarith
    have "z / 2 \<le> of_int \<lceil>z\<rceil> / 2" by (simp add: le_of_int_ceiling)
    also from n have "\<dots> \<le> of_int (\<lceil>z\<rceil> - 1)" by simp
    finally have "\<lceil>z / 2\<rceil> \<le> \<lceil>z\<rceil> - 1" by (rule ceiling_le)
    then show ?thesis by simp
  qed
  from b have y: "1 < 1 / x" by simp
  have "1 / (x * 2) = (1 / x) / 2" by simp
  moreover have "\<lceil>(1 / x) / 2\<rceil> < \<lceil>1 / x\<rceil>" using y by (rule half)
  moreover have "0 < \<lceil>1 / x\<rceil>" using y by linarith
  ultimately show "(x * 2, x) \<in> measure (\<lambda>x. if 2 \<le> x then nat \<lfloor>x\<rfloor> else nat \<lceil>1 / x\<rceil>)"
    using a lt by simp
qed

declare exponent.simps [simp del]

definition round_ties_even :: "real \<Rightarrow> int" where
  "round_ties_even y =
     (let f = \<lfloor>y\<rfloor>; d = y - of_int f
      in if d < 1 / 2 then f else if 1 / 2 < d then f + 1 else if even f then f else f + 1)"

definition double :: "real \<Rightarrow> real" where
  "double x =
     (let e = max (exponent \<bar>x\<bar> - 52) (- 1074)
      in of_int (round_ties_even (x / pow2 e)) * pow2 e)"

text \<open>
  The operators \<open>*\<close>, \<open>+\<close> and \<open>/\<close> of the code on doubles: the exact result, rounded.
  A decimal literal of the code, such as \<open>1.15\<close>, is the double nearest to it. The
  operands are taken as they are: the numbers of a state and the seconds passed to
  \<open>applyOfflineProgress\<close> are doubles in the code, and a \<open>real\<close> that is no double stands
  for no value of the code.
\<close>

definition js_times :: "real \<Rightarrow> real \<Rightarrow> real" where
  "js_times x y = double (x * y)"

definition js_plus :: "real \<Rightarrow> real \<Rightarrow> real" where
  "js_plus x y = double (x + y)"

definition js_divide :: "real \<Rightarrow> real \<Rightarrow> real" where
  "js_divide x y = double (x / y)"

text \<open>
  \<open>Math.pow\<close> with a level as exponent. ECMAScript leaves its last digit to the
  implementation; the model takes the correctly rounded power, which at exponent 1 is the
  base itself.
\<close>

definition Math_pow :: "real \<Rightarrow> nat \<Rightarrow> real" where
  "Math_pow x n = double (x ^ n)"

section \<open>GameState\<close>

text \<open>The object literal; \<open>now\<close> is the value of \<open>Date.now()\<close> when the module loads.\<close>

definition GameState_literal :: "real \<Rightarrow> GameState" where
  "GameState_literal now =
     \<lparr> money = 0, totalMoneyEarned = 0, moneyPerSecond = 0, totalBaked = 0,
       currentRecipe = None, recipes = [], autoBakers = 0, autoBakerLevel = 0,
       autoBakerCost = 50, upgrades = [], reputation = 0, customersServed = 0,
       customerSatisfaction = 100, level = 1, experience = 0, milestones = [],
       lastSaveTime = 0, lastPlayTime = 0, totalPlayTime = 0, gameStartTime = now,
       autoBakerProductionBonus = 1, maxReputation = 100, experiencePerLevel = 100 \<rparr>"

definition mk_recipe :: "string \<Rightarrow> string \<Rightarrow> string \<Rightarrow> real \<Rightarrow> real \<Rightarrow> real \<Rightarrow> bool \<Rightarrow> real \<Rightarrow> recipe" where
  "mk_recipe i n ic cost secs yield unl ucost =
     \<lparr> recipe_id = i, recipe_name = n, recipe_icon = ic, recipe_baseCost = cost,
       recipe_currentCost = cost, bakeTime = secs, baseProduction = yield,
       currentProduction = yield, unlocked = unl, bakeCount = 0, totalProduction = 0,
       recipe_level = 0, upgradeCost = ucost \<rparr>"

text \<open>Icons are the UTF-8 bytes of the emoji in the source.\<close>

definition initial_recipes :: "(string \<times> recipe) list" where
  "initial_recipes =
     [ (''cookie'', mk_recipe ''cookie'' ''Sugar Cookie''
          [CHR 0xF0, CHR 0x9F, CHR 0x8D, CHR 0xAA] 1 2 1 True 10),
       (''brownie'', mk_recipe ''brownie'' ''Chocolate Brownie''
          [CHR 0xF0, CHR 0x9F, CHR 0x8D, CHR 0xAB] 5 3 2 False 30),
       (''croissant'', mk_recipe ''croissant'' ''Butter Croissant''
          [CHR 0xF0, CHR 0x9F, CHR 0xA5, CHR 0x90] 15 4 5 False 75),
       (''cake'', mk_recipe ''cake'' ''Vanilla Cake''
          [CHR 0xF0, CHR 0x9F, CHR 0x8E, CHR 0x82] 50 6 15 False 200),
       (''donut'', mk_recipe ''donut'' ''Glazed Donut''
          [CHR 0xF0, CHR 0x9F, CHR 0x8D, CHR 0xA9] 8 2 3 False 40) ]"

definition initializeRecipes :: "GameState \<Rightarrow> GameState" where
  "initializeRecipes s = s\<lparr>recipes := initial_recipes\<rparr>"

definition mk_upgrade :: "string \<Rightarrow> string \<Rightarrow> string \<Rightarrow> nat \<Rightarrow> real \<Rightarrow> string \<Rightarrow> real \<Rightarrow> upgrade_type \<Rightarrow> upgrade" where
  "mk_upgrade i n ic mx cost d b t =
     \<lparr> upgrade_id = i, upgrade_name = n, upgrade_icon = ic, upgrade_level = 0,
       maxLevel = mx, baseCost = cost, currentCost = cost, description = d, bonus = b,
       upgrade_kind = t \<rparr>"

definition initial_upgrades :: "(string \<times> upgrade) list" where
  "initial_upgrades =
     [ (''betterOven'', mk_upgrade ''betterOven'' ''Better Oven''
          [CHR 0xF0, CHR 0x9F, CHR 0x94, CHR 0xA5] 10 100
          ''+5% production per level'' (double 1.05) production),
       (''moreShelves'', mk_upgrade ''moreShelves'' ''More Shelves''
          [CHR 0xF0, CHR 0x9F, CHR 0x93, CHR 0xA6] 10 150
          ''+10% capacity per level'' (double 1.10) capacity),
       (''marketingCampaign'', mk_upgrade ''marketingCampaign'' ''Marketing Campaign''
          [CHR 0xF0, CHR 0x9F, CHR 0x93, CHR 0xA2] 5 200
          ''+20% reputation gain per level'' (double 1.20) reputation_type) ]"

definition initializeUpgrades :: "GameState \<Rightarrow> GameState" where
  "initializeUpgrades s = s\<lparr>upgrades := initial_upgrades\<rparr>"

definition initial_milestones :: "(string \<times> milestone) list" where
  "initial_milestones =
     [ (''firstBake'', \<lparr> milestone_id = ''firstBake'', milestone_name = ''First Bake'',
          completed = False, requirement = Some 1 \<rparr>),
       (''hundredBakes'', \<lparr> milestone_id = ''hundredBakes'', milestone_name = ''100 Bakes'',
          completed = False, requirement = Some 100 \<rparr>),
       (''thousandDollars'', \<lparr> milestone_id = ''thousandDollars'',
          milestone_name = ''$1,000 Earned'', completed = False, requirement = Some 1000 \<rparr>),
       (''allRecipesUnlocked'', \<lparr> milestone_id = ''allRecipesUnlocked'',
          milestone_name = ''Master Baker'', completed = False, requirement = None \<rparr>) ]"

definition initializeMilestones :: "GameState \<Rightarrow> GameState" where
  "initializeMilestones s = s\<lparr>milestones := initial_milestones\<rparr>"

text \<open>\<open>initialize()\<close>; \<open>t1\<close> and \<open>t2\<close> are its two readings of \<open>Date.now()\<close>.\<close>

definition initialize :: "real \<Rightarrow> real \<Rightarrow> GameState \<Rightarrow> GameState" where
  "initialize t1 t2 s =
     initializeMilestones (initializeUpgrades (initializeRecipes
       (s\<lparr>money := 10, totalMoneyEarned := 10, lastSaveTime := t1, gameStartTime := t2\<rparr>)))"

text \<open>A freshly loaded and initialised model.\<close>

definition fresh :: GameState where
  "fresh = initialize 0 0 (GameState_literal 0)"

subsection \<open>Milestones\<close>

definition completeMilestone :: "string \<Rightarrow> GameState \<Rightarrow> GameState" where
  "completeMilestone milestoneId s =
     (case map_of (milestones s) milestoneId of
        None \<Rightarrow> s
      | Some m \<Rightarrow>
          s\<lparr> milestones := AList.update milestoneId (m\<lparr>completed := True\<rparr>) (milestones s),
             money := money s + 50,
             totalMoneyEarned := totalMoneyEarned s + 50 \<rparr>)"

text \<open>
  One \<open>if (threshold && !this.milestones.X.completed) this.completeMilestone('X')\<close>:
  \<open>&&\<close> short-circuits, so the milestone object is read only when the threshold holds,
  and reading \<open>completed\<close> of a missing one throws.
\<close>

definition check_threshold :: "bool \<Rightarrow> string \<Rightarrow> GameState \<Rightarrow> error + GameState" where
  "check_threshold reached milestoneId s =
     (if reached then
        (case map_of (milestones s) milestoneId of
           None \<Rightarrow> Inl TypeError
         | Some m \<Rightarrow> if \<not> completed m then Inr (completeMilestone milestoneId s) else Inr s)
      else Inr s)"

definition checkMilestones :: "GameState \<Rightarrow> error + GameState" where
  "checkMilestones s =
     (case check_threshold (totalBaked s \<ge> 1) ''firstBake'' s of
        Inl e \<Rightarrow> Inl e
      | Inr s1 \<Rightarrow>
          (case check_threshold (totalBaked s1 \<ge> 100) ''hundredBakes'' s1 of
             Inl e \<Rightarrow> Inl e
           | Inr s2 \<Rightarrow> check_threshold (totalMoneyEarned s2 \<ge> 1000) ''thousandDollars'' s2))"

subsection \<open>Baking\<close>

text \<open>
  \<open>GameState.bake(recipe)\<close> receives an object reference, not an id. \<open>Held k\<close> is the
  recipe object that is the own property \<open>k\<close> of \<open>this.recipes\<close> (\<open>undefined\<close> when there
  is none), \<open>Loose r\<close> is a recipe object that is not in the dictionary, \<open>Absent\<close> is
  \<open>null\<close> or \<open>undefined\<close>.
  The function mutates the object it works on, so the result carries, after the returned
  boolean and the new state, that object's contents after the call.
\<close>

datatype recipe_ref = Absent | Held string | Loose recipe

definition baked :: "recipe \<Rightarrow> recipe" where
  "baked r = r\<lparr> bakeCount := bakeCount r + 1,
                totalProduction := totalProduction r + currentProduction r \<rparr>"

definition credit_bake :: "recipe \<Rightarrow> GameState \<Rightarrow> GameState" where
  "credit_bake r s =
     s\<lparr> money := money s + currentProduction r,
        totalMoneyEarned := totalMoneyEarned s + currentProduction r,
        totalBaked := totalBaked s + 1 \<rparr>"

definition bake_held :: "string \<Rightarrow> GameState \<Rightarrow> error + (bool \<times> GameState \<times> recipe)" where
  "bake_held k s =
     (case map_of (recipes s) k of
        None \<Rightarrow> Inl TypeError
      | Some r \<Rightarrow>
          if \<not> unlocked r then Inr (False, s, r)
          else
            (case checkMilestones
                    ((credit_bake r s)\<lparr>recipes := AList.update k (baked r) (recipes s)\<rparr>) of
               Inl e \<Rightarrow> Inl e
             | Inr s' \<Rightarrow> Inr (True, s', baked r)))"

definition bake :: "recipe_ref \<Rightarrow> GameState \<Rightarrow> error + (bool \<times> GameState \<times> recipe)" where
  "bake recipe s =
     (case recipe of
        Loose r \<Rightarrow>
          if \<not> unlocked r then Inr (False, s, r)
          else
            (case checkMilestones (credit_bake r s) of
               Inl e \<Rightarrow> Inl e
             | Inr s' \<Rightarrow> Inr (True, s', baked r))
      | Held k \<Rightarrow>
          if map_of (recipes s) k = None then bake_held ''cookie'' s else bake_held k s
      | Absent \<Rightarrow> bake_held ''cookie'' s)"

definition unlockRecipe :: "string \<Rightarrow> GameState \<Rightarrow> GameState" where
  "unlockRecipe recipeId s =
     (case map_of (recipes s) recipeId of
        None \<Rightarrow> s
      | Some r \<Rightarrow> s\<lparr>recipes := AList.update recipeId (r\<lparr>unlocked := True\<rparr>) (recipes s)\<rparr>)"

subsection \<open>Passive income\<close>

text \<open>The \<open>for ... in\<close> loop that adds the recipes' contributions to an accumulator.\<close>

definition add_recipe_income :: "string \<times> recipe \<Rightarrow> real \<Rightarrow> real" where
  "add_recipe_income kr acc =
     (if unlocked (snd kr) \<and> recipe_level (snd kr) > 0
      then acc + currentProduction (snd kr) * real (recipe_level (snd kr)) * 0.1
      else acc)"

definition recalculateMoneyPerSecond :: "GameState \<Rightarrow> GameState" where
  "recalculateMoneyPerSecond s =
     s\<lparr>moneyPerSecond := fold add_recipe_income (recipes s) (real (autoBakers s) * 5)\<rparr>"

subsection \<open>Purchases\<close>

text \<open>
  In the lookups by id below and in \<open>Recipes\<close>, the branch \<open>None\<close> is the code's
  \<open>undefined\<close>, for an id that names no property; an id inherited from \<open>Object.prototype\<close>
  is outside the model (see \<open>own_or_undefined\<close>).
\<close>

definition applyUpgradeBonus :: "upgrade \<Rightarrow> GameState \<Rightarrow> GameState" where
  "applyUpgradeBonus u s =
     (if upgrade_kind u = production then
        s\<lparr>recipes :=
            map (\<lambda>(k, r). (k, r\<lparr>currentProduction :=
                   of_int \<lceil>js_times (baseProduction r)
                             (Math_pow (bonus u) (upgrade_level u))\<rceil>\<rparr>)) (recipes s)\<rparr>
      else s)"

definition purchaseUpgrade :: "string \<Rightarrow> GameState \<Rightarrow> bool \<times> GameState" where
  "purchaseUpgrade upgradeId s =
     (case map_of (upgrades s) upgradeId of
        None \<Rightarrow> (False, s)
      | Some u \<Rightarrow>
          if upgrade_level u \<ge> maxLevel u then (False, s)
          else if money s < currentCost u then (False, s)
          else
            (let u1 = u\<lparr>upgrade_level := upgrade_level u + 1\<rparr>;
                 u2 = u1\<lparr>currentCost :=
                         of_int \<lceil>js_times (baseCost u1)
                                   (Math_pow (double 1.1) (upgrade_level u1))\<rceil>\<rparr>
             in (True, applyUpgradeBonus u2
                   (s\<lparr> money := money s - currentCost u,
                       upgrades := AList.update upgradeId u2 (upgrades s) \<rparr>))))"

definition hireAutoBaker :: "GameState \<Rightarrow> bool \<times> GameState" where
  "hireAutoBaker s =
     (if money s < autoBakerCost s then (False, s)
      else (True, recalculateMoneyPerSecond
              (s\<lparr> money := money s - autoBakerCost s,
                  autoBakers := autoBakers s + 1,
                  autoBakerLevel := autoBakerLevel s + 1,
                  autoBakerCost := of_int \<lceil>js_times (autoBakerCost s) (double 1.15)\<rceil> \<rparr>)))"

section \<open>Recipes\<close>

definition bakeRecipe :: "string \<Rightarrow> GameState \<Rightarrow> bool \<times> GameState" where
  "bakeRecipe recipeId s =
     (case map_of (recipes s) recipeId of
        None \<Rightarrow> (False, s)
      | Some r \<Rightarrow>
          if \<not> unlocked r then (False, s)
          else (True, (credit_bake r s)\<lparr>recipes := AList.update recipeId (baked r) (recipes s)\<rparr>))"

definition upgradeRecipe :: "string \<Rightarrow> GameState \<Rightarrow> bool \<times> GameState" where
  "upgradeRecipe recipeId s =
     (case map_of (recipes s) recipeId of
        None \<Rightarrow> (False, s)
      | Some r \<Rightarrow>
          if \<not> unlocked r then (False, s)
          else if money s < upgradeCost r then (False, s)
          else
            (let r1 = r\<lparr>recipe_level := recipe_level r + 1\<rparr>;
                 r2 = r1\<lparr>currentProduction :=
                         of_int \<lceil>js_times (baseProduction r1)
                                   (Math_pow (double 1.2) (recipe_level r1))\<rceil>\<rparr>;
                 r3 = r2\<lparr>upgradeCost := of_int \<lceil>js_times (upgradeCost r2) (double 1.15)\<rceil>\<rparr>
             in (True, s\<lparr> money := money s - upgradeCost r,
                          recipes := AList.update recipeId r3 (recipes s) \<rparr>)))"

section \<open>OfflineProgress\<close>

definition MAX_OFFLINE_TIME :: real where
  "MAX_OFFLINE_TIME = 7 * 24 * 60 * 60"

record offline_earnings =
  earnings :: int
  secondsCalculated :: real
  autoBakerIncome :: real
  recipeIncome :: real

text \<open>
  The loop of \<open>calculateOfflineEarnings\<close> over the recipes. Its sum is multiplied by the
  seconds and floored, so it is the sum of doubles that the code computes.
\<close>

definition add_offline_income :: "string \<times> recipe \<Rightarrow> real \<Rightarrow> real" where
  "add_offline_income kr acc =
     (if unlocked (snd kr) \<and> recipe_level (snd kr) > 0
      then js_plus acc
             (js_times (js_times (currentProduction (snd kr)) (real (recipe_level (snd kr))))
                (double 0.1))
      else acc)"

definition calculateOfflineEarnings :: "GameState \<Rightarrow> real \<Rightarrow> offline_earnings" where
  "calculateOfflineEarnings s secondsOffline =
     (let cappedSeconds = min secondsOffline MAX_OFFLINE_TIME;
          abi = js_times (real (autoBakers s)) 5;
          ri = fold add_offline_income (recipes s) 0;
          totalIncome = js_plus abi ri;
          totalEarnings = js_times totalIncome cappedSeconds
      in \<lparr> earnings = \<lfloor>totalEarnings\<rfloor>, secondsCalculated = cappedSeconds,
           autoBakerIncome = abi, recipeIncome = ri \<rparr>)"

record offline_result =
  moneyGained :: int
  itemsBaked :: int

definition applyOfflineProgress :: "real \<Rightarrow> GameState \<Rightarrow> offline_result \<times> GameState" where
  "applyOfflineProgress secondsOffline s =
     (if secondsOffline \<le> 0 then (\<lparr>moneyGained = 0, itemsBaked = 0\<rparr>, s)
      else
        (let e = calculateOfflineEarnings s secondsOffline;
             n = (if autoBakerIncome e > 0
                  then \<lfloor>js_divide (js_times (autoBakerIncome e) secondsOffline) 5\<rfloor>
                  else 0)
         in (\<lparr>moneyGained = earnings e, itemsBaked = n\<rparr>,
             s\<lparr> money := money s + of_int (earnings e),
                totalMoneyEarned := totalMoneyEarned s + of_int (earnings e),
                totalBaked := totalBaked s + n \<rparr>)))"

definition track_production :: "string \<times> recipe \<Rightarrow> string \<times> recipe" where
  "track_production kr =
     (let r = snd kr in
      if unlocked r \<and> recipe_level r > 0 then
        (let thisRecipeIncome = currentProduction r * real (recipe_level r) * 0.1
         in if thisRecipeIncome > 0
            then (fst kr, r\<lparr>totalProduction := totalProduction r + thisRecipeIncome\<rparr>)
            else kr)
      else kr)"

record tick_result =
  incomeThisTick :: real
  totalMoney :: real

definition tick :: "GameState \<Rightarrow> tick_result \<times> GameState" where
  "tick s =
     (let passiveIncome = moneyPerSecond s;
          s' = (if passiveIncome > 0
                then s\<lparr> money := money s + passiveIncome,
                        totalMoneyEarned := totalMoneyEarned s + passiveIncome,
                        recipes := map track_production (recipes s) \<rparr>
                else s)
      in (\<lparr>incomeThisTick = passiveIncome, totalMoney = money s'\<rparr>, s'))"

section \<open>SaveManager\<close>

definition SAVE_KEY :: string where
  "SAVE_KEY = ''sweetSuccessBakery_save''"

definition VERSION_KEY :: string where
  "VERSION_KEY = ''sweetSuccessBakery_version''"

definition CURRENT_VERSION :: nat where
  "CURRENT_VERSION = 1"

record SaveData =
  version :: nat
  timestamp :: real
  state :: SavedState

text \<open>
  \<open>JSON\<close> and \<open>localStorage\<close> belong to the browser, not to the repository, so they are
  parameters: \<open>'b\<close> is the type of stored strings, \<open>stringify\<close> and \<open>parse\<close> are
  \<open>JSON.stringify\<close> and \<open>JSON.parse\<close> on save records (\<open>None\<close> when they throw, or when
  the parsed value has no \<open>state\<close>), \<open>numToString\<close> is \<open>Number.prototype.toString\<close>, and
  \<open>accepts k v\<close> tells whether \<open>localStorage.setItem(k, v)\<close> returns rather than throws.
\<close>

record 'b platform =
  stringify :: "SaveData \<Rightarrow> 'b option"
  parse :: "'b \<Rightarrow> SaveData option"
  numToString :: "nat \<Rightarrow> 'b"
  accepts :: "string \<Rightarrow> 'b \<Rightarrow> bool"

type_synonym 'b localStorage = "string \<Rightarrow> 'b option"

text \<open>The snapshot built by \<open>save\<close>; \<open>t1\<close> and \<open>t2\<close> are its two readings of \<open>Date.now()\<close>.\<close>

definition saveData :: "real \<Rightarrow> real \<Rightarrow> GameState \<Rightarrow> SaveData" where
  "saveData t1 t2 gameState =
     \<lparr> version = CURRENT_VERSION,
       timestamp = t1,
       state = \<lparr> money = money gameState,
                 totalMoneyEarned = totalMoneyEarned gameState,
                 moneyPerSecond = moneyPerSecond gameState,
                 totalBaked = totalBaked gameState,
                 currentRecipe = currentRecipe gameState,
                 recipes = recipes gameState,
                 autoBakers = autoBakers gameState,
                 autoBakerLevel = autoBakerLevel gameState,
                 autoBakerCost = autoBakerCost gameState,
                 upgrades = upgrades gameState,
                 reputation = reputation gameState,
                 customersServed = customersServed gameState,
                 customerSatisfaction = customerSatisfaction gameState,
                 level = level gameState,
                 experience = experience gameState,
                 milestones = milestones gameState,
                 lastSaveTime = t2,
                 lastPlayTime = lastPlayTime gameState,
                 totalPlayTime = totalPlayTime gameState,
                 gameStartTime = gameStartTime gameState \<rparr> \<rparr>"

definition save :: "'b platform \<Rightarrow> real \<Rightarrow> real \<Rightarrow> GameState \<Rightarrow> 'b localStorage \<Rightarrow> bool \<times> 'b localStorage" where
  "save p t1 t2 gameState store =
     (case stringify p (saveData t1 t2 gameState) of
        None \<Rightarrow> (False, store)
      | Some json \<Rightarrow>
          if \<not> accepts p SAVE_KEY json then (False, store)
          else
            (let store1 = store(SAVE_KEY \<mapsto> json) in
             if \<not> accepts p VERSION_KEY (numToString p CURRENT_VERSION) then (False, store1)
             else (True, store1(VERSION_KEY \<mapsto> numToString p CURRENT_VERSION))))"

text \<open>A version mismatch only logs a warning, so \<open>load\<close> does not look at the version.\<close>

definition load :: "'b platform \<Rightarrow> 'b localStorage \<Rightarrow> SavedState option" where
  "load p store =
     (case store SAVE_KEY of
        None \<Rightarrow> None
      | Some json \<Rightarrow> (case parse p json of None \<Rightarrow> None | Some parsed \<Rightarrow> Some (state parsed)))"

text \<open>\<open>Object.assign(gameState, savedState)\<close> for a saved state with the twenty fields.\<close>

definition restoreState :: "GameState \<Rightarrow> SavedState option \<Rightarrow> GameState" where
  "restoreState gameState savedState =
     (case savedState of
        None \<Rightarrow> gameState
      | Some v \<Rightarrow>
          gameState\<lparr> money := money v,
                     totalMoneyEarned := totalMoneyEarned v,
                     moneyPerSecond := moneyPerSecond v,
                     totalBaked := totalBaked v,
                     currentRecipe := currentRecipe v,
                     recipes := recipes v,
                     autoBakers := autoBakers v,
                     autoBakerLevel := autoBakerLevel v,
                     autoBakerCost := autoBakerCost v,
                     upgrades := upgrades v,
                     reputation := reputation v,
                     customersServed := customersServed v,
                     customerSatisfaction := customerSatisfaction v,
                     level := level v,
                     experience := experience v,
                     milestones := milestones v,
                     lastSaveTime := lastSaveTime v,
                     lastPlayTime := lastPlayTime v,
                     totalPlayTime := totalPlayTime v,
                     gameStartTime := gameStartTime v \<rparr>)"

text \<open>
  A platform whose stored strings are the documents themselves: a stored value is a save
  record or the text of a number, and parsing gives back the record that was written.
\<close>

definition direct_platform :: "(SaveData + nat) platform" where
  "direct_platform =
     \<lparr> stringify = (\<lambda>d. Some (Inl d)),
       parse = (\<lambda>b. case b of Inl d \<Rightarrow> Some d | Inr n \<Rightarrow> None),
       numToString = Inr,
       accepts = (\<lambda>k v. True) \<rparr>"

section \<open>Sequences of operations\<close>

datatype op =
    Bake recipe_ref
  | BakeRecipe string
  | UnlockRecipe string
  | PurchaseUpgrade string
  | UpgradeRecipe string
  | HireAutoBaker
  | RecalculateMoneyPerSecond
  | Tick
  | ApplyOfflineProgress real
  | CheckMilestones

fun exec :: "op \<Rightarrow> GameState \<Rightarrow> error + GameState" where
  "exec (Bake r) s = (case bake r s of Inl e \<Rightarrow> Inl e | Inr (ok, s', r') \<Rightarrow> Inr s')"
| "exec (BakeRecipe k) s = Inr (snd (bakeRecipe k s))"
| "exec (UnlockRecipe k) s = Inr (unlockRecipe k s)"
| "exec (PurchaseUpgrade k) s = Inr (snd (purchaseUpgrade k s))"
| "exec (UpgradeRecipe k) s = Inr (snd (upgradeRecipe k s))"
| "exec HireAutoBaker s = Inr (snd (hireAutoBaker s))"
| "exec RecalculateMoneyPerSecond s = Inr (recalculateMoneyPerSecond s)"
| "exec Tick s = Inr (snd (tick s))"
| "exec (ApplyOfflineProgress secs) s = Inr (snd (applyOfflineProgress secs s))"
| "exec CheckMilestones s = checkMilestones s"

fun run :: "op list \<Rightarrow> GameState \<Rightarrow> error + GameState" where
  "run [] s = Inr s"
| "run (x # xs) s = (case exec x s of Inl e \<Rightarrow> Inl e | Inr s' \<Rightarrow> run xs s')"

section \<open>Notions used in the statements\<close>


text \<open>
  The income rate in the words of the specification: five per auto-baker, plus the sum
  over the unlocked recipes of positive level of \<open>currentProduction * level * 0.1\<close>.
\<close>

definition totalIncome :: "GameState \<Rightarrow> real" where
  "totalIncome s =
     real (autoBakers s) * 5 +
     (\<Sum>r\<leftarrow>filter (\<lambda>r. unlocked r \<and> recipe_level r > 0) (map snd (recipes s)).
        currentProduction r * real (recipe_level r) * 0.1)"

text \<open>
  The income rate of the offline computation, in the same words and in the code's
  arithmetic: the double sum of five per auto-baker and of the recipes' contributions,
  added up in dictionary order.
\<close>

definition offline_income :: "GameState \<Rightarrow> real" where
  "offline_income s =
     js_plus (js_times (real (autoBakers s)) 5)
       (foldl js_plus 0
          (map (\<lambda>r. js_times (js_times (currentProduction r) (real (recipe_level r))) (double 0.1))
             (filter (\<lambda>r. unlocked r \<and> recipe_level r > 0) (map snd (recipes s)))))"

text \<open>
  The property names that every object inherits from \<open>Object.prototype\<close> (ECMAScript,
  Object.prototype and its legacy accessors). \<open>obj[k]\<close> is \<open>undefined\<close> in the code exactly
  when \<open>k\<close> is neither an own key nor one of these.
\<close>

definition Object_prototype_names :: "string list" where
  "Object_prototype_names =
     [''constructor'', ''hasOwnProperty'', ''isPrototypeOf'', ''propertyIsEnumerable'',
      ''toLocaleString'', ''toString'', ''valueOf'', ''__proto__'', ''__defineGetter__'',
      ''__defineSetter__'', ''__lookupGetter__'', ''__lookupSetter__'']"

text \<open>\<open>obj[k]\<close> is an own entry or \<open>undefined\<close>: the lookups that the model covers.\<close>

definition own_or_undefined :: "(string \<times> 'a) list \<Rightarrow> string \<Rightarrow> bool" where
  "own_or_undefined obj k = (map_of obj k \<noteq> None \<or> k \<notin> set Object_prototype_names)"

text \<open>The recipe object that \<open>GameState.bake\<close> works on: the cookie stands in for a missing argument.\<close>

definition bake_target :: "GameState \<Rightarrow> recipe_ref \<Rightarrow> recipe option" where
  "bake_target s recipe =
     (case recipe of
        Loose r \<Rightarrow> Some r
      | Held k \<Rightarrow> (case map_of (recipes s) k of
                     None \<Rightarrow> map_of (recipes s) ''cookie''
                   | Some r \<Rightarrow> Some r)
      | Absent \<Rightarrow> map_of (recipes s) ''cookie'')"

definition is_completed :: "string \<Rightarrow> GameState \<Rightarrow> bool" where
  "is_completed milestoneId s =
     (case map_of (milestones s) milestoneId of None \<Rightarrow> False | Some m \<Rightarrow> completed m)"

text \<open>How many of the three threshold milestones are completed.\<close>

definition completed_count :: "GameState \<Rightarrow> nat" where
  "completed_count s =
     length (filter (\<lambda>k. is_completed k s) [''firstBake'', ''hundredBakes'', ''thousandDollars''])"

text \<open>
  The price of the next auto-baker after \<open>k\<close> hires: the ceiling is taken at every hire,
  of the double product as in \<open>hireAutoBaker\<close>.
\<close>

fun baker_cost :: "nat \<Rightarrow> real" where
  "baker_cost 0 = 50"
| "baker_cost (Suc k) = of_int \<lceil>js_times (baker_cost k) (double 1.15)\<rceil>"

text \<open>\<open>k\<close> calls of \<open>hireAutoBaker\<close> in a row; \<open>None\<close> as soon as one of them returns false.\<close>

fun hire_times :: "nat \<Rightarrow> GameState \<Rightarrow> GameState option" where
  "hire_times 0 s = Some s"
| "hire_times (Suc k) s =
     (case hireAutoBaker s of (True, s') \<Rightarrow> hire_times k s' | (False, s') \<Rightarrow> None)"

text \<open>
  The entries that the engine reads without a guard are there: the cookie recipe and the
  three threshold milestones.
\<close>

definition well_formed :: "GameState \<Rightarrow> bool" where
  "well_formed s =
     (''cookie'' \<in> fst ` set (recipes s) \<and>
      ''firstBake'' \<in> fst ` set (milestones s) \<and>
      ''hundredBakes'' \<in> fst ` set (milestones s) \<and>
      ''thousandDollars'' \<in> fst ` set (milestones s))"

text \<open>
  A bakery after ordinary play: from 1000 money, the brownie, the cake and the donut are
  unlocked and the cookie, the brownie, the cake and the donut are upgraded once.
\<close>

definition four_upgrades :: "op list" where
  "four_upgrades =
     [UnlockRecipe ''brownie'', UnlockRecipe ''cake'', UnlockRecipe ''donut'',
      UpgradeRecipe ''cookie'', UpgradeRecipe ''brownie'', UpgradeRecipe ''cake'',
      UpgradeRecipe ''donut'']"

definition upgraded_bakery :: GameState where
  "upgraded_bakery = projr (run four_upgrades (fresh\<lparr>money := 1000\<rparr>))"

section \<open>Auxiliary facts\<close>

lemmas fresh_defs = fresh_def initialize_def GameState_literal_def initializeMilestones_def
  initializeUpgrades_def initializeRecipes_def initial_recipes_def initial_upgrades_def
  initial_milestones_def mk_recipe_def mk_upgrade_def

lemmas milestone_defs = checkMilestones_def check_threshold_def completeMilestone_def
  is_completed_def



subsection \<open>Doubles\<close>

text \<open>
  The equations that evaluate the double operations on numerals. They are used on closed
  terms only: on a variable the recursion of \<open>exponent\<close> would unfold without end.
\<close>

lemmas double_eval = js_times_def js_plus_def js_divide_def Math_pow_def double_def
  round_ties_even_def pow2_def exponent.simps

lemma pow2_pos: "0 < pow2 e"
  by (simp add: pow2_def)

lemma round_ties_even_nonneg: "0 \<le> y \<Longrightarrow> 0 \<le> round_ties_even y"
  by (simp add: round_ties_even_def Let_def)

lemma double_nonneg: "0 \<le> x \<Longrightarrow> 0 \<le> double x"
  unfolding double_def Let_def
  by (intro mult_nonneg_nonneg) (simp_all add: round_ties_even_nonneg less_imp_le [OF pow2_pos])

lemma double_zero: "double 0 = 0"
  by (simp add: double_def round_ties_even_def)

lemma js_times_nonneg: "0 \<le> x \<Longrightarrow> 0 \<le> y \<Longrightarrow> 0 \<le> js_times x y"
  by (simp add: js_times_def double_nonneg)

text \<open>The decimal literals of the code, as doubles.\<close>

lemma double_literals:
  "double 1.1 = 4953959590107546 / 2 ^ 52"
  "double 1.15 = 5179139571476070 / 2 ^ 52"
  "double 1.2 = 5404319552844595 / 2 ^ 52"
  "double 1.05 = 4728779608739021 / 2 ^ 52"
  "double 0.1 = 7205759403792794 / 2 ^ 56"
  by (simp_all add: double_eval)

subsection \<open>Association lists\<close>

lemma map_of_Some_key: "map_of al k = Some v \<Longrightarrow> k \<in> fst ` set al"
  by (metis domI dom_map_of_conv_image_fst)

lemma key_map_of: "k \<in> fst ` set al \<Longrightarrow> \<exists>v. map_of al k = Some v"
  by (metis domD dom_map_of_conv_image_fst)

lemma update_present_keys: "k \<in> fst ` set al \<Longrightarrow> map fst (AList.update k v al) = map fst al"
  by (simp add: update_keys)

subsection \<open>completeMilestone and check_threshold\<close>

lemma completeMilestone_frame:
  "recipes (completeMilestone mid s) = recipes s"
  "totalBaked (completeMilestone mid s) = totalBaked s"
  "upgrades (completeMilestone mid s) = upgrades s"
  by (simp_all add: completeMilestone_def split: option.splits)

lemma completeMilestone_keys:
  "map fst (milestones (completeMilestone mid s)) = map fst (milestones s)"
  by (simp add: completeMilestone_def update_present_keys map_of_Some_key split: option.splits)

lemma completeMilestone_other:
  "k \<noteq> mid \<Longrightarrow> map_of (milestones (completeMilestone mid s)) k = map_of (milestones s) k"
  by (simp add: completeMilestone_def update_conv' split: option.splits)

lemma completeMilestone_is_completed:
  "map_of (milestones s) mid = Some m \<Longrightarrow>
     is_completed k (completeMilestone mid s) = (k = mid \<or> is_completed k s)"
  by (simp add: completeMilestone_def is_completed_def update_conv')

lemma completeMilestone_money:
  "map_of (milestones s) mid = Some m \<Longrightarrow>
     money (completeMilestone mid s) = money s + 50 \<and>
     totalMoneyEarned (completeMilestone mid s) = totalMoneyEarned s + 50"
  by (simp add: completeMilestone_def)

lemma check_threshold_cases:
  "check_threshold reached mid s = Inr s' \<Longrightarrow>
     (s' = s \<and> (reached \<longrightarrow> is_completed mid s)) \<or>
     (reached \<and> \<not> is_completed mid s \<and> s' = completeMilestone mid s \<and>
      (\<exists>m. map_of (milestones s) mid = Some m))"
  by (auto simp: check_threshold_def is_completed_def split: if_splits option.splits)

lemma check_threshold_total:
  "mid \<in> fst ` set (milestones s) \<Longrightarrow> \<exists>s'. check_threshold reached mid s = Inr s'"
  by (auto simp: check_threshold_def dest!: key_map_of split: option.splits)

lemma check_threshold_keys:
  "check_threshold reached mid s = Inr s' \<Longrightarrow>
     map fst (milestones s') = map fst (milestones s) \<and> recipes s' = recipes s \<and>
     totalBaked s' = totalBaked s \<and> upgrades s' = upgrades s"
  by (auto dest!: check_threshold_cases simp: completeMilestone_keys completeMilestone_frame)

lemma check_threshold_other:
  "check_threshold reached mid s = Inr s' \<Longrightarrow> k \<noteq> mid \<Longrightarrow>
     map_of (milestones s') k = map_of (milestones s) k"
  by (auto dest!: check_threshold_cases simp: completeMilestone_other)

text \<open>What one threshold check does to the completion flags and to the money.\<close>

lemma check_threshold_effect:
  assumes "check_threshold reached mid s = Inr s'"
  shows "is_completed mid s' = (is_completed mid s \<or> reached)"
    and "k \<noteq> mid \<Longrightarrow> is_completed k s' = is_completed k s"
    and "money s' = money s + (if is_completed mid s' \<and> \<not> is_completed mid s then 50 else 0)"
    and "totalMoneyEarned s' =
           totalMoneyEarned s + (if is_completed mid s' \<and> \<not> is_completed mid s then 50 else 0)"
  using check_threshold_cases [OF assms]
  by (auto simp: completeMilestone_is_completed completeMilestone_money)

lemma checkMilestones_steps:
  assumes "checkMilestones s = Inr s'"
  obtains s1 s2 where
    "check_threshold (1 \<le> totalBaked s) ''firstBake'' s = Inr s1"
    "check_threshold (100 \<le> totalBaked s1) ''hundredBakes'' s1 = Inr s2"
    "check_threshold (1000 \<le> totalMoneyEarned s2) ''thousandDollars'' s2 = Inr s'"
  using assms by (auto simp: checkMilestones_def split: sum.splits)

lemma checkMilestones_effect:
  assumes "checkMilestones s = Inr s'"
  shows "totalBaked s' = totalBaked s"
    and "is_completed ''firstBake'' s' = (is_completed ''firstBake'' s \<or> 1 \<le> totalBaked s)"
    and "is_completed ''hundredBakes'' s' = (is_completed ''hundredBakes'' s \<or> 100 \<le> totalBaked s)"
    and "is_completed ''thousandDollars'' s' =
           (is_completed ''thousandDollars'' s \<or> 1000 \<le> totalMoneyEarned s')"
    and "1000 \<le> totalMoneyEarned s \<Longrightarrow> is_completed ''thousandDollars'' s'"
    and "money s' = money s + 50 * (real (completed_count s') - real (completed_count s))"
    and "totalMoneyEarned s' =
           totalMoneyEarned s + 50 * (real (completed_count s') - real (completed_count s))"
proof -
  from assms obtain s1 s2 where
    c1: "check_threshold (1 \<le> totalBaked s) ''firstBake'' s = Inr s1" and
    c2: "check_threshold (100 \<le> totalBaked s1) ''hundredBakes'' s1 = Inr s2" and
    c3: "check_threshold (1000 \<le> totalMoneyEarned s2) ''thousandDollars'' s2 = Inr s'"
    by (rule checkMilestones_steps)
  note k1 = check_threshold_keys [OF c1] and k2 = check_threshold_keys [OF c2]
    and k3 = check_threshold_keys [OF c3]
  note e1 = check_threshold_effect [OF c1] and e2 = check_threshold_effect [OF c2]
    and e3 = check_threshold_effect [OF c3]
  show "totalBaked s' = totalBaked s" using k1 k2 k3 by simp
  have f: "is_completed ''firstBake'' s' = is_completed ''firstBake'' s1"
    using e2(2) [of "''firstBake''"] e3(2) [of "''firstBake''"] by simp
  have h: "is_completed ''hundredBakes'' s' = is_completed ''hundredBakes'' s2"
       "is_completed ''hundredBakes'' s1 = is_completed ''hundredBakes'' s"
    using e1(2) [of "''hundredBakes''"] e3(2) [of "''hundredBakes''"] by simp_all
  have t: "is_completed ''thousandDollars'' s2 = is_completed ''thousandDollars'' s"
    using e1(2) [of "''thousandDollars''"] e2(2) [of "''thousandDollars''"] by simp
  show "is_completed ''firstBake'' s' = (is_completed ''firstBake'' s \<or> 1 \<le> totalBaked s)"
    using f e1(1) by simp
  show "is_completed ''hundredBakes'' s' = (is_completed ''hundredBakes'' s \<or> 100 \<le> totalBaked s)"
    using h e2(1) k1 by simp
  have mono: "totalMoneyEarned s \<le> totalMoneyEarned s2"
    using e1(4) e2(4) by (simp split: if_splits)
  show "is_completed ''thousandDollars'' s' =
           (is_completed ''thousandDollars'' s \<or> 1000 \<le> totalMoneyEarned s')"
    using e3(1) e3(4) t by (auto split: if_splits)
  show "is_completed ''thousandDollars'' s'" if "1000 \<le> totalMoneyEarned s"
    using that mono e3(1) by simp
  have f0: "is_completed ''firstBake'' s2 = is_completed ''firstBake'' s1"
    using e2(2) [of "''firstBake''"] by simp
  have h0: "is_completed ''hundredBakes'' s' = is_completed ''hundredBakes'' s2"
    using e3(2) [of "''hundredBakes''"] by simp
  have cnt: "real (completed_count s') - real (completed_count s) =
      (if is_completed ''firstBake'' s1 \<and> \<not> is_completed ''firstBake'' s then 1 else 0) +
      (if is_completed ''hundredBakes'' s2 \<and> \<not> is_completed ''hundredBakes'' s1 then 1 else 0) +
      (if is_completed ''thousandDollars'' s' \<and> \<not> is_completed ''thousandDollars'' s2 then 1 else 0)"
    using f h t e1(1) e2(1) e3(1) by (auto simp: completed_count_def)
  show "money s' = money s + 50 * (real (completed_count s') - real (completed_count s))"
    unfolding cnt using e1(3) e2(3) e3(3) by (simp split: if_splits)
  show "totalMoneyEarned s' =
           totalMoneyEarned s + 50 * (real (completed_count s') - real (completed_count s))"
    unfolding cnt using e1(4) e2(4) e3(4) by (simp split: if_splits)
qed

lemma check_threshold_noop:
  "(reached \<longrightarrow> is_completed mid s) \<Longrightarrow> check_threshold reached mid s = Inr s"
  by (auto simp: check_threshold_def is_completed_def split: option.splits)

lemma checkMilestones_settled:
  assumes "checkMilestones s = Inr s'"
  shows "checkMilestones s' = Inr s'"
proof -
  note e = checkMilestones_effect [OF assms]
  have "check_threshold (1 \<le> totalBaked s') ''firstBake'' s' = Inr s'"
    using e(1,2) by (intro check_threshold_noop) simp
  moreover have "check_threshold (100 \<le> totalBaked s') ''hundredBakes'' s' = Inr s'"
    using e(1,3) by (intro check_threshold_noop) simp
  moreover have "check_threshold (1000 \<le> totalMoneyEarned s') ''thousandDollars'' s' = Inr s'"
    using e(4) by (intro check_threshold_noop) simp
  ultimately show ?thesis by (simp add: checkMilestones_def)
qed

lemma checkMilestones_total:
  assumes "''firstBake'' \<in> fst ` set (milestones s)"
    and "''hundredBakes'' \<in> fst ` set (milestones s)"
    and "''thousandDollars'' \<in> fst ` set (milestones s)"
  shows "\<exists>s'. checkMilestones s = Inr s'"
proof -
  from check_threshold_total [OF assms(1)] obtain s1 where
    c1: "check_threshold (1 \<le> totalBaked s) ''firstBake'' s = Inr s1" by blast
  from check_threshold_keys [OF c1] have k1: "fst ` set (milestones s1) = fst ` set (milestones s)"
    by (metis set_map)
  with assms(2) have "''hundredBakes'' \<in> fst ` set (milestones s1)" by simp
  from check_threshold_total [OF this] obtain s2 where
    c2: "check_threshold (100 \<le> totalBaked s1) ''hundredBakes'' s1 = Inr s2" by blast
  from check_threshold_keys [OF c2] have "fst ` set (milestones s2) = fst ` set (milestones s1)"
    by (metis set_map)
  with assms(3) k1 have "''thousandDollars'' \<in> fst ` set (milestones s2)" by simp
  from check_threshold_total [OF this] obtain s3 where
    "check_threshold (1000 \<le> totalMoneyEarned s2) ''thousandDollars'' s2 = Inr s3" by blast
  with c1 c2 show ?thesis by (simp add: checkMilestones_def)
qed

lemma checkMilestones_shape:
  assumes "checkMilestones s = Inr s'"
  shows "map fst (milestones s') = map fst (milestones s) \<and> recipes s' = recipes s \<and>
         map_of (milestones s') ''allRecipesUnlocked'' = map_of (milestones s) ''allRecipesUnlocked''"
proof -
  from assms obtain s1 s2 where
    c1: "check_threshold (1 \<le> totalBaked s) ''firstBake'' s = Inr s1" and
    c2: "check_threshold (100 \<le> totalBaked s1) ''hundredBakes'' s1 = Inr s2" and
    c3: "check_threshold (1000 \<le> totalMoneyEarned s2) ''thousandDollars'' s2 = Inr s'"
    by (rule checkMilestones_steps)
  from check_threshold_keys [OF c1] check_threshold_keys [OF c2] check_threshold_keys [OF c3]
    check_threshold_other [OF c1, of "''allRecipesUnlocked''"]
    check_threshold_other [OF c2, of "''allRecipesUnlocked''"]
    check_threshold_other [OF c3, of "''allRecipesUnlocked''"]
  show ?thesis by simp
qed

subsection \<open>Every operation\<close>

lemma bake_held_shape:
  assumes "bake_held k s = Inr (ok, s', r')"
  shows "map fst (recipes s') = map fst (recipes s) \<and>
         map fst (milestones s') = map fst (milestones s) \<and>
         map_of (milestones s') ''allRecipesUnlocked'' = map_of (milestones s) ''allRecipesUnlocked''"
proof (cases "map_of (recipes s) k")
  case None
  with assms show ?thesis by (simp add: bake_held_def)
next
  case (Some r)
  show ?thesis
  proof (cases "unlocked r")
    case False
    with Some assms show ?thesis by (simp add: bake_held_def)
  next
    case True
    let ?t = "(credit_bake r s)\<lparr>recipes := AList.update k (baked r) (recipes s)\<rparr>"
    from True Some assms have "checkMilestones ?t = Inr s'"
      by (simp add: bake_held_def split: sum.splits)
    from checkMilestones_shape [OF this] Some show ?thesis
      by (simp add: credit_bake_def update_present_keys map_of_Some_key)
  qed
qed

lemma bake_shape:
  assumes "bake recipe s = Inr (ok, s', r')"
  shows "map fst (recipes s') = map fst (recipes s) \<and>
         map fst (milestones s') = map fst (milestones s) \<and>
         map_of (milestones s') ''allRecipesUnlocked'' = map_of (milestones s) ''allRecipesUnlocked''"
proof (cases recipe)
  case Absent
  with assms show ?thesis by (simp add: bake_def bake_held_shape)
next
  case (Held k)
  with assms show ?thesis by (simp add: bake_def bake_held_shape split: if_splits)
next
  case (Loose r)
  show ?thesis
  proof (cases "unlocked r")
    case False
    with Loose assms show ?thesis by (simp add: bake_def)
  next
    case True
    with Loose assms have "checkMilestones (credit_bake r s) = Inr s'"
      by (simp add: bake_def split: sum.splits)
    from checkMilestones_shape [OF this] show ?thesis by (simp add: credit_bake_def)
  qed
qed

lemma fst_track_production: "fst (track_production kr) = fst kr"
  by (simp add: track_production_def Let_def)

lemma map_fst_map_snd: "map fst (map (\<lambda>(k, r). (k, f r)) xs) = map fst xs"
  by (induction xs) auto

lemma exec_shape:
  assumes "exec x s = Inr s'"
  shows "map fst (recipes s') = map fst (recipes s)"
    and "map fst (milestones s') = map fst (milestones s)"
    and "map_of (milestones s') ''allRecipesUnlocked'' = map_of (milestones s) ''allRecipesUnlocked''"
proof -
  have "map fst (recipes s') = map fst (recipes s) \<and>
        map fst (milestones s') = map fst (milestones s) \<and>
        map_of (milestones s') ''allRecipesUnlocked'' = map_of (milestones s) ''allRecipesUnlocked''"
  proof (cases x)
    case (Bake r)
    with assms show ?thesis
      by (auto split: sum.splits dest: bake_shape)
  next
    case (BakeRecipe k)
    with assms show ?thesis
      by (auto simp: bakeRecipe_def credit_bake_def update_present_keys map_of_Some_key
          split: option.splits)
  next
    case (UnlockRecipe k)
    with assms show ?thesis
      by (auto simp: unlockRecipe_def update_present_keys map_of_Some_key split: option.splits)
  next
    case (PurchaseUpgrade k)
    with assms show ?thesis
      by (auto simp: purchaseUpgrade_def applyUpgradeBonus_def Let_def map_fst_map_snd
          split: option.splits)
  next
    case (UpgradeRecipe k)
    with assms show ?thesis
      by (auto simp: upgradeRecipe_def Let_def update_present_keys map_of_Some_key
          split: option.splits)
  next
    case HireAutoBaker
    with assms show ?thesis
      by (auto simp: hireAutoBaker_def recalculateMoneyPerSecond_def)
  next
    case RecalculateMoneyPerSecond
    with assms show ?thesis
      by (auto simp: recalculateMoneyPerSecond_def)
  next
    case Tick
    with assms show ?thesis
      by (auto simp: tick_def Let_def fst_track_production split: if_splits)
  next
    case (ApplyOfflineProgress secs)
    with assms show ?thesis
      by (auto simp: applyOfflineProgress_def Let_def)
  next
    case CheckMilestones
    with assms show ?thesis
      by (simp add: checkMilestones_shape)
  qed
  then show "map fst (recipes s') = map fst (recipes s)"
    and "map fst (milestones s') = map fst (milestones s)"
    and "map_of (milestones s') ''allRecipesUnlocked'' = map_of (milestones s) ''allRecipesUnlocked''"
    by simp_all
qed

lemma well_formed_exec:
  assumes "exec x s = Inr s'" and "well_formed s"
  shows "well_formed s'"
proof -
  from exec_shape [OF assms(1)]
  have "fst ` set (recipes s') = fst ` set (recipes s)"
    and "fst ` set (milestones s') = fst ` set (milestones s)"
    by (metis set_map)+
  with assms(2) show ?thesis by (simp add: well_formed_def)
qed

lemma bake_held_total:
  assumes "well_formed s" and "k \<in> fst ` set (recipes s)"
  shows "\<exists>res. bake_held k s = Inr res"
proof -
  from key_map_of [OF assms(2)] obtain r where r: "map_of (recipes s) k = Some r" by blast
  let ?t = "(credit_bake r s)\<lparr>recipes := AList.update k (baked r) (recipes s)\<rparr>"
  from assms(1) have "\<exists>s'. checkMilestones ?t = Inr s'"
    by (intro checkMilestones_total) (simp_all add: well_formed_def credit_bake_def)
  with r show ?thesis by (auto simp: bake_held_def)
qed

lemma bake_total:
  assumes "well_formed s"
  shows "\<exists>res. bake recipe s = Inr res"
proof (cases recipe)
  case Absent
  with bake_held_total [OF assms, of "''cookie''"] assms show ?thesis
    by (simp add: bake_def well_formed_def)
next
  case (Held k)
  show ?thesis
  proof (cases "map_of (recipes s) k")
    case None
    with Held bake_held_total [OF assms, of "''cookie''"] assms show ?thesis
      by (simp add: bake_def well_formed_def)
  next
    case (Some r)
    with Held bake_held_total [OF assms, of k] show ?thesis
      by (simp add: bake_def map_of_Some_key)
  qed
next
  case (Loose r)
  from assms have "\<exists>s'. checkMilestones (credit_bake r s) = Inr s'"
    by (intro checkMilestones_total) (simp_all add: well_formed_def credit_bake_def)
  with Loose show ?thesis by (auto simp: bake_def)
qed

lemma exec_total:
  assumes "well_formed s"
  shows "\<exists>s'. exec x s = Inr s'"
proof (cases x)
  case (Bake r)
  from bake_total [OF assms, of r] obtain res where "bake r s = Inr res" by blast
  with Bake show ?thesis by (cases res) simp
next
  case CheckMilestones
  with assms checkMilestones_total [of s] show ?thesis by (simp add: well_formed_def)
qed simp_all

lemma run_total_master:
  "well_formed s \<Longrightarrow>
     \<exists>s'. run xs s = Inr s' \<and>
       map_of (milestones s') ''allRecipesUnlocked'' = map_of (milestones s) ''allRecipesUnlocked''"
proof (induction xs arbitrary: s)
  case Nil
  then show ?case by simp
next
  case (Cons x xs)
  from exec_total [OF Cons.prems, of x] obtain s1 where s1: "exec x s = Inr s1" by blast
  from well_formed_exec [OF s1 Cons.prems] have "well_formed s1" .
  from Cons.IH [OF this] obtain s' where "run xs s1 = Inr s'"
    and "map_of (milestones s') ''allRecipesUnlocked'' = map_of (milestones s1) ''allRecipesUnlocked''"
    by blast
  with s1 exec_shape(3) [OF s1] show ?case by simp
qed

lemma checkMilestones_keeps_completed:
  assumes "checkMilestones s = Inr s'" and "is_completed k s"
  shows "is_completed k s'"
proof -
  from assms(1) obtain s1 s2 where
    c1: "check_threshold (1 \<le> totalBaked s) ''firstBake'' s = Inr s1" and
    c2: "check_threshold (100 \<le> totalBaked s1) ''hundredBakes'' s1 = Inr s2" and
    c3: "check_threshold (1000 \<le> totalMoneyEarned s2) ''thousandDollars'' s2 = Inr s'"
    by (rule checkMilestones_steps)
  have step: "is_completed k b" if "check_threshold c mid a = Inr b" and "is_completed k a"
    for c mid a b
    using check_threshold_effect(1) [OF that(1)] check_threshold_effect(2) [OF that(1), of k]
      that(2)
    by (cases "k = mid") simp_all
  from step [OF c3 step [OF c2 step [OF c1 assms(2)]]] show ?thesis .
qed

text \<open>Only \<open>completeMilestone\<close> writes to the milestones.\<close>

lemma milestones_frame:
  "milestones (snd (bakeRecipe k s)) = milestones s"
  "milestones (unlockRecipe k s) = milestones s"
  "milestones (snd (purchaseUpgrade k s)) = milestones s"
  "milestones (snd (upgradeRecipe k s)) = milestones s"
  "milestones (snd (hireAutoBaker s)) = milestones s"
  "milestones (recalculateMoneyPerSecond s) = milestones s"
  "milestones (snd (tick s)) = milestones s"
  "milestones (snd (applyOfflineProgress secs s)) = milestones s"
  by (simp_all add: bakeRecipe_def credit_bake_def unlockRecipe_def purchaseUpgrade_def
      applyUpgradeBonus_def upgradeRecipe_def hireAutoBaker_def recalculateMoneyPerSecond_def
      tick_def applyOfflineProgress_def Let_def split: option.splits)

lemma exec_keeps_completed:
  assumes "exec x s = Inr s'" and "is_completed k s"
  shows "is_completed k s'"
proof (cases x)
  case (Bake recipe)
  with assms(1) obtain ok r' where b: "bake recipe s = Inr (ok, s', r')"
    by (auto split: sum.splits)
  have held: "is_completed k t" if "bake_held j s = Inr (ok, t, r')" for j t
  proof (cases "map_of (recipes s) j")
    case None
    with that show ?thesis by (simp add: bake_held_def)
  next
    case (Some r)
    show ?thesis
    proof (cases "unlocked r")
      case False
      with Some that assms(2) show ?thesis by (simp add: bake_held_def)
    next
      case True
      let ?u = "(credit_bake r s)\<lparr>recipes := AList.update j (baked r) (recipes s)\<rparr>"
      from True Some that have "checkMilestones ?u = Inr t"
        by (simp add: bake_held_def split: sum.splits)
      moreover from assms(2) have "is_completed k ?u"
        by (simp add: is_completed_def credit_bake_def)
      ultimately show ?thesis by (rule checkMilestones_keeps_completed)
    qed
  qed
  show ?thesis
  proof (cases recipe)
    case Absent
    with b held show ?thesis by (simp add: bake_def)
  next
    case (Held j)
    with b held show ?thesis by (simp add: bake_def split: if_splits)
  next
    case (Loose r)
    show ?thesis
    proof (cases "unlocked r")
      case False
      with Loose b assms(2) show ?thesis by (simp add: bake_def)
    next
      case True
      with Loose b have "checkMilestones (credit_bake r s) = Inr s'"
        by (simp add: bake_def split: sum.splits)
      moreover from assms(2) have "is_completed k (credit_bake r s)"
        by (simp add: is_completed_def credit_bake_def)
      ultimately show ?thesis by (rule checkMilestones_keeps_completed)
    qed
  qed
next
  case (BakeRecipe j)
  with assms(1) have "milestones s' = milestones s" by (auto simp: milestones_frame)
  with assms(2) show ?thesis by (simp add: is_completed_def)
next
  case (UnlockRecipe j)
  with assms(1) have "milestones s' = milestones s" by (auto simp: milestones_frame)
  with assms(2) show ?thesis by (simp add: is_completed_def)
next
  case (PurchaseUpgrade j)
  with assms(1) have "milestones s' = milestones s" by (auto simp: milestones_frame)
  with assms(2) show ?thesis by (simp add: is_completed_def)
next
  case (UpgradeRecipe j)
  with assms(1) have "milestones s' = milestones s" by (auto simp: milestones_frame)
  with assms(2) show ?thesis by (simp add: is_completed_def)
next
  case HireAutoBaker
  with assms(1) have "milestones s' = milestones s" by (auto simp: milestones_frame)
  with assms(2) show ?thesis by (simp add: is_completed_def)
next
  case RecalculateMoneyPerSecond
  with assms(1) have "milestones s' = milestones s" by (auto simp: milestones_frame)
  with assms(2) show ?thesis by (simp add: is_completed_def)
next
  case Tick
  with assms(1) have "milestones s' = milestones s" by (auto simp: milestones_frame)
  with assms(2) show ?thesis by (simp add: is_completed_def)
next
  case (ApplyOfflineProgress secs)
  with assms(1) have "milestones s' = milestones s" by (auto simp: milestones_frame)
  with assms(2) show ?thesis by (simp add: is_completed_def)
next
  case CheckMilestones
  with assms show ?thesis
    by (simp add: checkMilestones_keeps_completed)
qed

text \<open>A bake that returns true has ended with \<open>checkMilestones\<close>.\<close>

lemma bake_runs_check:
  assumes "bake recipe a = Inr (True, b, r')"
  shows "\<exists>t. checkMilestones t = Inr b"
proof -
  have held: "\<exists>t. checkMilestones t = Inr b" if "bake_held j a = Inr (True, b, r')" for j
    using that by (auto simp: bake_held_def split: option.splits if_splits sum.splits)
  show ?thesis
  proof (cases recipe)
    case Absent
    with assms held show ?thesis by (simp add: bake_def)
  next
    case (Held j)
    with assms held show ?thesis by (simp add: bake_def split: if_splits)
  next
    case (Loose r)
    with assms show ?thesis by (auto simp: bake_def split: if_splits sum.splits)
  qed
qed

lemma bake_leaves_settled:
  assumes "bake recipe a = Inr (True, b, r')"
  shows "1 \<le> totalBaked b \<longrightarrow> is_completed ''firstBake'' b"
    and "100 \<le> totalBaked b \<longrightarrow> is_completed ''hundredBakes'' b"
    and "1000 \<le> totalMoneyEarned b \<longrightarrow> is_completed ''thousandDollars'' b"
proof -
  from bake_runs_check [OF assms] obtain t where t: "checkMilestones t = Inr b" by blast
  note e = checkMilestones_effect [OF t]
  show "1 \<le> totalBaked b \<longrightarrow> is_completed ''firstBake'' b" using e(1,2) by simp
  show "100 \<le> totalBaked b \<longrightarrow> is_completed ''hundredBakes'' b" using e(1,3) by simp
  show "1000 \<le> totalMoneyEarned b \<longrightarrow> is_completed ''thousandDollars'' b" using e(4) by simp
qed

subsection \<open>Hiring\<close>

lemma hire_success:
  "autoBakerCost s \<le> money s \<Longrightarrow>
     \<exists>t. hireAutoBaker s = (True, t) \<and>
       autoBakers t = autoBakers s + 1 \<and>
       autoBakerCost t = of_int \<lceil>js_times (autoBakerCost s) (double 1.15)\<rceil> \<and>
       money t = money s - autoBakerCost s"
  by (simp add: hireAutoBaker_def recalculateMoneyPerSecond_def)

lemma hire_failure: "money s < autoBakerCost s \<Longrightarrow> hireAutoBaker s = (False, s)"
  by (simp add: hireAutoBaker_def)

lemma baker_cost_values:
  "baker_cost 1 = 58" "baker_cost 2 = 67" "baker_cost 3 = 78"
  by (simp_all add: numeral_2_eq_2 numeral_3_eq_3 double_eval)

lemma baker_cost_nonneg: "0 \<le> baker_cost n"
proof (induction n)
  case 0
  show ?case by simp
next
  case (Suc n)
  have "0 \<le> double 1.15" by (rule double_nonneg) simp
  with Suc have "0 \<le> js_times (baker_cost n) (double 1.15)" by (rule js_times_nonneg)
  then show ?case by simp
qed

lemma hire_times_result:
  "hire_times k s = Some s' \<Longrightarrow> autoBakerCost s = baker_cost j \<Longrightarrow>
     autoBakers s' = autoBakers s + k \<and> autoBakerCost s' = baker_cost (j + k)"
proof (induction k arbitrary: s j)
  case 0
  then show ?case by simp
next
  case (Suc k)
  show ?case
  proof (cases "money s < autoBakerCost s")
    case True
    with Suc.prems show ?thesis by (simp add: hire_failure)
  next
    case False
    then have "autoBakerCost s \<le> money s" by simp
    from hire_success [OF this] obtain t where h: "hireAutoBaker s = (True, t)"
      and b: "autoBakers t = autoBakers s + 1"
      and c: "autoBakerCost t = of_int \<lceil>js_times (autoBakerCost s) (double 1.15)\<rceil>"
      by blast
    from Suc.prems(1) h have steps: "hire_times k t = Some s'" by simp
    from c Suc.prems(2) have "autoBakerCost t = baker_cost (Suc j)" by simp
    from Suc.IH [OF steps this] b show ?thesis by simp
  qed
qed

lemma hire_times_succeeds:
  "autoBakerCost s = baker_cost j \<Longrightarrow> (\<Sum>i<k. baker_cost (j + i)) \<le> money s \<Longrightarrow>
     \<exists>s'. hire_times k s = Some s'"
proof (induction k arbitrary: s j)
  case 0
  then show ?case by simp
next
  case (Suc k)
  have split: "(\<Sum>i<Suc k. baker_cost (j + i)) = baker_cost j + (\<Sum>i<k. baker_cost (Suc j + i))"
    by (simp add: sum.lessThan_Suc_shift del: sum.lessThan_Suc)
  have "0 \<le> (\<Sum>i<k. baker_cost (Suc j + i))"
    by (rule sum_nonneg) (rule baker_cost_nonneg)
  with Suc.prems split have "autoBakerCost s \<le> money s" by linarith
  from hire_success [OF this] obtain t where h: "hireAutoBaker s = (True, t)"
    and c: "autoBakerCost t = of_int \<lceil>js_times (autoBakerCost s) (double 1.15)\<rceil>"
    and m: "money t = money s - autoBakerCost s" by blast
  from c Suc.prems(1) have c': "autoBakerCost t = baker_cost (Suc j)" by simp
  from m Suc.prems split have "(\<Sum>i<k. baker_cost (Suc j + i)) \<le> money t" by linarith
  from Suc.IH [OF c' this] obtain s' where "hire_times k t = Some s'" by blast
  with h show ?case by simp
qed

lemma baker_cost_first:
  "baker_cost 1 = of_int \<lceil>(50::real) * 1.15 ^ 1\<rceil>"
  "baker_cost 2 = of_int \<lceil>(50::real) * 1.15 ^ 2\<rceil>"
  by (simp_all add: numeral_2_eq_2 double_eval)

subsection \<open>Saving and loading\<close>

lemma keys_differ: "SAVE_KEY \<noteq> VERSION_KEY"
  by (simp add: SAVE_KEY_def VERSION_KEY_def)

lemma load_after_save:
  assumes "save p t1 t2 m store = (True, store')"
    and "\<forall>json. stringify p (saveData t1 t2 m) = Some json \<longrightarrow>
                 parse p json = Some (saveData t1 t2 m)"
  shows "load p store' = Some (state (saveData t1 t2 m))"
proof -
  from assms(1) obtain json where j: "stringify p (saveData t1 t2 m) = Some json"
    and s: "store' = store(SAVE_KEY \<mapsto> json, VERSION_KEY \<mapsto> numToString p CURRENT_VERSION)"
    by (auto simp: save_def Let_def split: option.splits if_splits)
  from s keys_differ have "store' SAVE_KEY = Some json" by simp
  moreover from assms(2) j have "parse p json = Some (saveData t1 t2 m)" by blast
  ultimately show ?thesis by (simp add: load_def)
qed

subsection \<open>Offline progress\<close>

lemma fold_add_offline_income:
  "fold add_offline_income xs a =
     foldl js_plus a
       (map (\<lambda>r. js_times (js_times (currentProduction r) (real (recipe_level r))) (double 0.1))
          (filter (\<lambda>r. unlocked r \<and> recipe_level r > 0) (map snd xs)))"
  by (induction xs arbitrary: a) (simp_all add: add_offline_income_def)

lemma MAX_OFFLINE_TIME_pos: "0 < MAX_OFFLINE_TIME"
  by (simp add: MAX_OFFLINE_TIME_def)

lemma offline_beyond_cap:
  assumes "MAX_OFFLINE_TIME < secondsElapsed"
  shows "money (snd (applyOfflineProgress secondsElapsed s)) =
           money s + of_int \<lfloor>js_times (offline_income s) MAX_OFFLINE_TIME\<rfloor>"
    and "totalMoneyEarned (snd (applyOfflineProgress secondsElapsed s)) =
           totalMoneyEarned s + of_int \<lfloor>js_times (offline_income s) MAX_OFFLINE_TIME\<rfloor>"
    and "totalBaked (snd (applyOfflineProgress secondsElapsed s)) =
           totalBaked s +
           \<lfloor>js_divide (js_times (js_times (real (autoBakers s)) 5) secondsElapsed) 5\<rfloor>"
proof -
  from assms MAX_OFFLINE_TIME_pos have pos: "\<not> secondsElapsed \<le> 0" by linarith
  from assms have cap: "min secondsElapsed MAX_OFFLINE_TIME = MAX_OFFLINE_TIME" by simp
  have inc: "js_plus (js_times (real (autoBakers s)) 5) (fold add_offline_income (recipes s) 0) =
      offline_income s"
    by (simp add: offline_income_def fold_add_offline_income)
  show "money (snd (applyOfflineProgress secondsElapsed s)) =
           money s + of_int \<lfloor>js_times (offline_income s) MAX_OFFLINE_TIME\<rfloor>"
    using pos cap inc by (simp add: applyOfflineProgress_def calculateOfflineEarnings_def Let_def)
  show "totalMoneyEarned (snd (applyOfflineProgress secondsElapsed s)) =
           totalMoneyEarned s + of_int \<lfloor>js_times (offline_income s) MAX_OFFLINE_TIME\<rfloor>"
    using pos cap inc by (simp add: applyOfflineProgress_def calculateOfflineEarnings_def Let_def)
  let ?abi = "js_times (real (autoBakers s)) 5"
  show "totalBaked (snd (applyOfflineProgress secondsElapsed s)) =
           totalBaked s + \<lfloor>js_divide (js_times ?abi secondsElapsed) 5\<rfloor>"
  proof (cases "0 < ?abi")
    case True
    with pos show ?thesis
      by (simp add: applyOfflineProgress_def calculateOfflineEarnings_def Let_def)
  next
    case False
    moreover have "0 \<le> ?abi" by (rule js_times_nonneg) simp_all
    ultimately have z: "?abi = 0" by simp
    then have "\<lfloor>js_divide (js_times ?abi secondsElapsed) 5\<rfloor> = 0"
      by (simp add: js_times_def js_divide_def double_zero)
    with pos z show ?thesis
      by (simp add: applyOfflineProgress_def calculateOfflineEarnings_def Let_def)
  qed
qed

lemma upgraded_bakery_run:
  "run four_upgrades (fresh\<lparr>money := 1000\<rparr>) = Inr upgraded_bakery"
  "money upgraded_bakery = 720"
  "autoBakers upgraded_bakery = 0"
  "map (\<lambda>kr. (fst kr, unlocked (snd kr), recipe_level (snd kr), currentProduction (snd kr)))
     (recipes upgraded_bakery) =
     [(''cookie'', True, 1, 2), (''brownie'', True, 1, 3), (''croissant'', False, 0, 5),
      (''cake'', True, 1, 18), (''donut'', True, 1, 4)]"
  unfolding upgraded_bakery_def four_upgrades_def
     apply (simp_all add: unlockRecipe_def upgradeRecipe_def Let_def fresh_defs)
   apply (simp_all add: double_eval)
  done

lemma upgraded_bakery_income:
  "totalIncome upgraded_bakery = 2.7"
  "\<lfloor>totalIncome upgraded_bakery * MAX_OFFLINE_TIME\<rfloor> = 1632960"
  unfolding upgraded_bakery_def four_upgrades_def
     apply (simp_all add: totalIncome_def MAX_OFFLINE_TIME_def unlockRecipe_def upgradeRecipe_def Let_def fresh_defs)
   apply (simp_all add: double_eval)
  done

lemma upgraded_bakery_offline:
  "money (snd (applyOfflineProgress 700000 upgraded_bakery)) = 1633679"
  unfolding upgraded_bakery_def four_upgrades_def
     apply (simp add: applyOfflineProgress_def calculateOfflineEarnings_def add_offline_income_def MAX_OFFLINE_TIME_def unlockRecipe_def upgradeRecipe_def Let_def fresh_defs)
   apply (simp add: double_eval)
  done

subsection \<open>Purchasing an upgrade\<close>

lemma purchase_effect:
  assumes "map_of (upgrades s) k = Some u" and "upgrade_level u < maxLevel u"
    and "currentCost u \<le> money s"
  shows "fst (purchaseUpgrade k s) = True"
    and "money (snd (purchaseUpgrade k s)) = money s - currentCost u"
    and "map_of (upgrades (snd (purchaseUpgrade k s))) k =
           Some (u\<lparr> upgrade_level := upgrade_level u + 1,
                    currentCost :=
                      of_int \<lceil>js_times (baseCost u)
                                (Math_pow (double 1.1) (upgrade_level u + 1))\<rceil> \<rparr>)"
    and "upgrade_kind u = production \<Longrightarrow>
           recipes (snd (purchaseUpgrade k s)) =
             map (\<lambda>(i, r). (i, r\<lparr>currentProduction :=
                    of_int \<lceil>js_times (baseProduction r)
                              (Math_pow (bonus u) (upgrade_level u + 1))\<rceil>\<rparr>)) (recipes s)"
    and "upgrade_kind u \<noteq> production \<Longrightarrow> recipes (snd (purchaseUpgrade k s)) = recipes s"
  using assms by (simp_all add: purchaseUpgrade_def applyUpgradeBonus_def Let_def update_conv')

lemma better_oven_scenario:
  "money (snd (purchaseUpgrade ''betterOven'' (fresh\<lparr>money := 100\<rparr>))) = 0"
  "map_option upgrade_level
     (map_of (upgrades (snd (purchaseUpgrade ''betterOven'' (fresh\<lparr>money := 100\<rparr>))))
        ''betterOven'') = Some 1"
  "map fst (recipes (snd (purchaseUpgrade ''betterOven'' (fresh\<lparr>money := 100\<rparr>)))) =
     [''cookie'', ''brownie'', ''croissant'', ''cake'', ''donut'']"
  by (simp_all add: purchaseUpgrade_def applyUpgradeBonus_def Let_def fresh_defs)

lemma better_oven_productions:
  "list_all (\<lambda>kr. currentProduction (snd kr) = of_int \<lceil>baseProduction (snd kr) * 1.05 ^ 1\<rceil>)
     (recipes (snd (purchaseUpgrade ''betterOven'' (fresh\<lparr>money := 100\<rparr>))))"
  "map (\<lambda>kr. currentProduction (snd kr))
     (recipes (snd (purchaseUpgrade ''betterOven'' (fresh\<lparr>money := 100\<rparr>)))) = [2, 3, 6, 16, 4]"
   apply (simp_all add: purchaseUpgrade_def applyUpgradeBonus_def Let_def fresh_defs)
   apply (simp_all add: double_eval)
  done

lemma better_oven_cost:
  "map_option currentCost
     (map_of (upgrades (snd (purchaseUpgrade ''betterOven'' (fresh\<lparr>money := 100\<rparr>))))
        ''betterOven'') = Some 111"
  apply (simp add: purchaseUpgrade_def applyUpgradeBonus_def Let_def fresh_defs)
  apply (simp add: double_eval)
  done

subsection \<open>The first bake of a fresh game\<close>

lemma first_bake_scenario:
  "\<not> isl (bake (Held ''cookie'') fresh)"
  "fst (projr (bake (Held ''cookie'') fresh)) = True"
  "totalBaked (fst (snd (projr (bake (Held ''cookie'') fresh)))) = 1"
  "is_completed ''firstBake'' (fst (snd (projr (bake (Held ''cookie'') fresh))))"
  "money (fst (snd (projr (bake (Held ''cookie'') fresh)))) = 61"
  by (simp_all add: bake_def bake_held_def fresh_defs credit_bake_def baked_def milestone_defs)

lemma first_bakeRecipe_scenario:
  "totalBaked fresh = 0"
  "fst (bakeRecipe ''cookie'' fresh) = True"
  "totalBaked (snd (bakeRecipe ''cookie'' fresh)) = 1"
  "\<not> is_completed ''firstBake'' (snd (bakeRecipe ''cookie'' fresh))"
  "money (snd (bakeRecipe ''cookie'' fresh)) = 11"
  by (simp_all add: bakeRecipe_def fresh_defs credit_bake_def baked_def is_completed_def)

section \<open>Baking a missing or locked recipe\<close>

text \<open>
  C1. \<open>GameState.bake\<close> returns false and changes nothing, neither the state nor the recipe
  object, when the recipe it works on is locked; a missing argument stands for the cookie
  recipe, so \<open>bake()\<close> is \<open>bake(this.recipes.cookie)\<close>. \<open>Recipes.bakeRecipe\<close> returns false
  and changes nothing when the id is an own key of a locked recipe, or is neither an own
  key nor a name inherited from \<open>Object.prototype\<close>, so that the lookup yields a locked
  recipe or \<open>undefined\<close>.
\<close>

theorem bake_locked:
  "(bake_target s recipe = Some r \<and> \<not> unlocked r \<longrightarrow> bake recipe s = Inr (False, s, r)) \<and>
   (own_or_undefined (recipes s) k \<and>
    (map_of (recipes s) k = None \<or> (map_of (recipes s) k = Some r \<and> \<not> unlocked r))
      \<longrightarrow> bakeRecipe k s = (False, s)) \<and>
   bake Absent s = bake (Held ''cookie'') s"
  by (auto simp: bake_def bake_held_def bake_target_def bakeRecipe_def
           split: recipe_ref.splits option.splits)

text \<open>
  The locked brownie of a fresh game, through both entry points, and an id that names
  nothing.
\<close>

theorem bake_locked_witness:
  "bake (Held ''brownie'') fresh =
     Inr (False, fresh, mk_recipe ''brownie'' ''Chocolate Brownie''
                          [CHR 0xF0, CHR 0x9F, CHR 0x8D, CHR 0xAB] 5 3 2 False 30) \<and>
   bakeRecipe ''brownie'' fresh = (False, fresh) \<and>
   bakeRecipe ''muffin'' fresh = (False, fresh)"
  using bake_locked [of fresh "Held ''brownie''"
      "mk_recipe ''brownie'' ''Chocolate Brownie'' [CHR 0xF0, CHR 0x9F, CHR 0x8D, CHR 0xAB] 5 3 2 False 30"
      "''brownie''"]
    bake_locked [of fresh "Held ''brownie''"
      "mk_recipe ''brownie'' ''Chocolate Brownie'' [CHR 0xF0, CHR 0x9F, CHR 0x8D, CHR 0xAB] 5 3 2 False 30"
      "''muffin''"]
  by (simp add: bake_target_def own_or_undefined_def Object_prototype_names_def fresh_defs)

text \<open>
  With no recipe argument a fresh game bakes a cookie: the call returns true, the money
  goes from 10 to 61 and \<open>totalBaked\<close> from 0 to 1.
\<close>

theorem bake_absent_counterexample:
  "\<not> isl (bake Absent fresh) \<and> fst (projr (bake Absent fresh)) = True \<and>
   money (fst (snd (projr (bake Absent fresh)))) = 61 \<and> money fresh = 10 \<and>
   totalBaked (fst (snd (projr (bake Absent fresh)))) = 1 \<and> totalBaked fresh = 0"
  by (simp add: bake_def bake_held_def fresh_defs credit_bake_def baked_def milestone_defs)

section \<open>Save, load and restore\<close>

text \<open>
  C2. When \<open>save\<close> returns true and \<open>JSON.parse\<close> gives back the record that
  \<open>JSON.stringify\<close> was given, restoring the loaded state into any model \<open>m'\<close> yields the
  saved model \<open>m\<close> in every saved field but \<open>lastSaveTime\<close>, which is the clock reading
  \<open>t2\<close> taken by \<open>save\<close>; the three fields that \<open>save\<close> does not write keep the values
  of \<open>m'\<close>.
\<close>

theorem save_load_restore:
  "save p t1 t2 m store = (True, store') \<and>
   (\<forall>json. stringify p (saveData t1 t2 m) = Some json \<longrightarrow>
            parse p json = Some (saveData t1 t2 m)) \<longrightarrow>
   restoreState m' (load p store') =
     m\<lparr> lastSaveTime := t2,
        autoBakerProductionBonus := autoBakerProductionBonus m',
        maxReputation := maxReputation m',
        experiencePerLevel := experiencePerLevel m' \<rparr>"
proof
  assume "save p t1 t2 m store = (True, store') \<and>
   (\<forall>json. stringify p (saveData t1 t2 m) = Some json \<longrightarrow>
            parse p json = Some (saveData t1 t2 m))"
  then have "load p store' = Some (state (saveData t1 t2 m))"
    using load_after_save by blast
  then show "restoreState m' (load p store') =
     m\<lparr> lastSaveTime := t2,
        autoBakerProductionBonus := autoBakerProductionBonus m',
        maxReputation := maxReputation m',
        experiencePerLevel := experiencePerLevel m' \<rparr>"
    by (simp add: restoreState_def saveData_def)
qed

text \<open>A game with 77 money and 3 bakes, saved at time 1001 and restored into a blank model.\<close>

theorem save_load_restore_witness:
  "restoreState (GameState_literal 9)
     (load direct_platform
        (snd (save direct_platform 1000 1001 (fresh\<lparr>money := 77, totalBaked := 3\<rparr>) Map.empty))) =
   fresh\<lparr>money := 77, totalBaked := 3, lastSaveTime := 1001\<rparr>"
  using save_load_restore [of direct_platform 1000 1001 "fresh\<lparr>money := 77, totalBaked := 3\<rparr>"
      Map.empty
      "snd (save direct_platform 1000 1001 (fresh\<lparr>money := 77, totalBaked := 3\<rparr>) Map.empty)"
      "GameState_literal 9"]
  by (simp add: save_def direct_platform_def Let_def fresh_defs)

text \<open>
  A fresh model has \<open>lastSaveTime = 0\<close>; saved at time 1000 and restored, it has
  \<open>lastSaveTime = 1000\<close>.
\<close>

theorem lastSaveTime_counterexample:
  "fst (save direct_platform 1000 1000 fresh Map.empty) = True \<and>
   lastSaveTime fresh = 0 \<and>
   lastSaveTime (restoreState fresh
      (load direct_platform (snd (save direct_platform 1000 1000 fresh Map.empty)))) = 1000"
  by (simp add: save_def load_def restoreState_def saveData_def direct_platform_def Let_def
      SAVE_KEY_def VERSION_KEY_def fresh_defs)

section \<open>Offline progress beyond the cap\<close>

text \<open>
  C3. The cap is seven days. For more elapsed seconds than the cap,
  \<open>applyOfflineProgress\<close> adds \<open>Math.floor(totalIncome * MAX_OFFLINE_TIME)\<close> to \<open>money\<close> and
  to \<open>totalMoneyEarned\<close>, where the income and the product are the doubles the code
  computes: \<open>autoBakers * 5\<close> plus the sum, taken in the order of the dictionary, of
  \<open>currentProduction * level * 0.1\<close> over the unlocked recipes of positive level. It adds
  \<open>Math.floor(autoBakers * 5 * secondsElapsed / 5)\<close>, with the uncapped seconds and again in
  doubles, to \<open>totalBaked\<close>.
\<close>

theorem offline_cap:
  "MAX_OFFLINE_TIME = 7 * 24 * 3600 \<and>
   (MAX_OFFLINE_TIME < secondsElapsed \<longrightarrow>
     money (snd (applyOfflineProgress secondsElapsed s)) =
       money s + of_int \<lfloor>js_times (offline_income s) MAX_OFFLINE_TIME\<rfloor> \<and>
     totalMoneyEarned (snd (applyOfflineProgress secondsElapsed s)) =
       totalMoneyEarned s + of_int \<lfloor>js_times (offline_income s) MAX_OFFLINE_TIME\<rfloor> \<and>
     totalBaked (snd (applyOfflineProgress secondsElapsed s)) =
       totalBaked s +
       \<lfloor>js_divide (js_times (js_times (real (autoBakers s)) 5) secondsElapsed) 5\<rfloor>)"
  using offline_beyond_cap [of secondsElapsed s] by (simp add: MAX_OFFLINE_TIME_def)

text \<open>
  Three auto-bakers and a level-2 cookie producing 2 give an income of 15.4 per second;
  after 700000.5 seconds the money grows from 10 by 9313920 and \<open>totalBaked\<close> by
  \<open>floor(3 * 700000.5)\<close>.
\<close>

theorem offline_cap_witness:
  "money (snd (applyOfflineProgress 700000.5
      (fresh\<lparr>autoBakers := 3,
             recipes := AList.update ''cookie''
               ((mk_recipe ''cookie'' ''Sugar Cookie'' [] 1 2 1 True 10)
                  \<lparr>recipe_level := 2, currentProduction := 2\<rparr>) (recipes fresh)\<rparr>))) = 9313930 \<and>
   totalBaked (snd (applyOfflineProgress 700000.5
      (fresh\<lparr>autoBakers := 3,
             recipes := AList.update ''cookie''
               ((mk_recipe ''cookie'' ''Sugar Cookie'' [] 1 2 1 True 10)
                  \<lparr>recipe_level := 2, currentProduction := 2\<rparr>) (recipes fresh)\<rparr>))) = 2100001"
  using offline_cap [of "700000.5"
      "fresh\<lparr>autoBakers := 3,
             recipes := AList.update ''cookie''
               ((mk_recipe ''cookie'' ''Sugar Cookie'' [] 1 2 1 True 10)
                  \<lparr>recipe_level := 2, currentProduction := 2\<rparr>) (recipes fresh)\<rparr>"]
  apply (simp add: offline_income_def MAX_OFFLINE_TIME_def fresh_defs)
  apply (simp add: double_eval)
  done

text \<open>
  The bakery with the cookie, the brownie, the cake and the donut upgraded once has 720
  money and a total income of \<open>(2 + 3 + 18 + 4) * 0.1 = 2.7\<close>, so that
  \<open>floor(totalIncome * MAX_OFFLINE_TIME)\<close> is 1632960. The doubles add up to
  2.6999999999999997 and their product with 604800 is below 1632960: after 700000 seconds
  offline the money is \<open>720 + 1632959\<close>.
\<close>

theorem offline_floor_counterexample:
  "run four_upgrades (fresh\<lparr>money := 1000\<rparr>) = Inr upgraded_bakery \<and>
   money upgraded_bakery = 720 \<and>
   MAX_OFFLINE_TIME < 700000 \<and>
   \<lfloor>totalIncome upgraded_bakery * MAX_OFFLINE_TIME\<rfloor> = 1632960 \<and>
   money (snd (applyOfflineProgress 700000 upgraded_bakery)) = 720 + 1632959"
  using upgraded_bakery_run(1,2) upgraded_bakery_income(2) upgraded_bakery_offline
  by (simp add: MAX_OFFLINE_TIME_def)

section \<open>Purchases never overdraw\<close>

text \<open>
  C4. For the ids that the model covers, own keys and ids that name no property at all:
  from a state with \<open>money \<ge> 0\<close>, each of \<open>purchaseUpgrade\<close>, \<open>upgradeRecipe\<close> and
  \<open>hireAutoBaker\<close> leaves \<open>money \<ge> 0\<close>; and each returns false and leaves the state as it
  is when the money is below the cost.

  The code does not keep this for an id inherited from \<open>Object.prototype\<close>. In
  \<open>purchaseUpgrade('constructor')\<close> the lookup \<open>this.upgrades[upgradeId]\<close> yields the
  function \<open>Object\<close>, so the guard \<open>!upgrade\<close> lets the call through; \<open>upgrade.level\<close>,
  \<open>upgrade.maxLevel\<close> and \<open>upgrade.currentCost\<close> are \<open>undefined\<close>, both comparisons are
  false, and \<open>this.money -= upgrade.currentCost\<close> leaves \<open>NaN\<close> in \<open>money\<close> before the call
  returns true. A \<open>real\<close> has no \<open>NaN\<close>, and the properties of \<open>Object\<close> are no part of the
  state, so this call lies outside the model.
\<close>

lemma purchases_keep_money_nonnegative:
  "(0 \<le> money s \<and> own_or_undefined (upgrades s) k \<and> own_or_undefined (recipes s) j \<longrightarrow>
      0 \<le> money (snd (purchaseUpgrade k s)) \<and>
      0 \<le> money (snd (upgradeRecipe j s)) \<and>
      0 \<le> money (snd (hireAutoBaker s))) \<and>
   (map_of (upgrades s) k = Some u \<and> money s < currentCost u \<longrightarrow>
      purchaseUpgrade k s = (False, s)) \<and>
   (map_of (recipes s) j = Some r \<and> money s < upgradeCost r \<longrightarrow>
      upgradeRecipe j s = (False, s)) \<and>
   (money s < autoBakerCost s \<longrightarrow> hireAutoBaker s = (False, s))"
  by (auto simp: purchaseUpgrade_def upgradeRecipe_def hireAutoBaker_def applyUpgradeBonus_def
      recalculateMoneyPerSecond_def Let_def split: option.splits)

text \<open>
  With 5 money nothing can be bought; with 100 money the oven upgrade leaves 0, the cookie
  upgrade 90 and the auto-baker 50.
\<close>

lemma purchases_with_little_money:
  "purchaseUpgrade ''betterOven'' (fresh\<lparr>money := 5\<rparr>) = (False, fresh\<lparr>money := 5\<rparr>) \<and>
   upgradeRecipe ''cookie'' (fresh\<lparr>money := 5\<rparr>) = (False, fresh\<lparr>money := 5\<rparr>) \<and>
   hireAutoBaker (fresh\<lparr>money := 5\<rparr>) = (False, fresh\<lparr>money := 5\<rparr>) \<and>
   money (snd (purchaseUpgrade ''betterOven'' (fresh\<lparr>money := 100\<rparr>))) = 0 \<and>
   money (snd (upgradeRecipe ''cookie'' (fresh\<lparr>money := 100\<rparr>))) = 90 \<and>
   money (snd (hireAutoBaker (fresh\<lparr>money := 100\<rparr>))) = 50"
  by (simp add: purchaseUpgrade_def upgradeRecipe_def hireAutoBaker_def applyUpgradeBonus_def
      recalculateMoneyPerSecond_def Let_def fresh_defs)

section \<open>Hiring k auto-bakers\<close>

text \<open>
  C5. From \<open>autoBakers = 0\<close> and \<open>autoBakerCost = 50\<close>, \<open>k\<close> successful hires in a row leave
  \<open>autoBakers = k\<close> and \<open>autoBakerCost = baker_cost k\<close>, the cost obtained by multiplying by
  1.15, in doubles, and rounding up at every hire; the \<open>k\<close> hires do succeed when the money
  covers the \<open>k\<close> successive costs. For one and two hires that cost is \<open>ceil(50 * 1.15^k)\<close>.
\<close>

theorem hire_k_times:
  "(autoBakers s = 0 \<and> autoBakerCost s = 50 \<longrightarrow>
     (hire_times k s = Some s' \<longrightarrow> autoBakers s' = k \<and> autoBakerCost s' = baker_cost k) \<and>
     ((\<Sum>i<k. baker_cost i) \<le> money s \<longrightarrow> (\<exists>t. hire_times k s = Some t))) \<and>
   baker_cost 1 = of_int \<lceil>(50::real) * 1.15 ^ 1\<rceil> \<and>
   baker_cost 2 = of_int \<lceil>(50::real) * 1.15 ^ 2\<rceil>"
  using hire_times_result [of k s s' 0] hire_times_succeeds [of s 0 k] baker_cost_first
  by simp

text \<open>One hire from 50 money: no money left, one auto-baker, the next one costs 58.\<close>

theorem hire_k_times_witness:
  "hire_times 1 (fresh\<lparr>money := 50\<rparr>) \<noteq> None \<and>
   money (the (hire_times 1 (fresh\<lparr>money := 50\<rparr>))) = 0 \<and>
   autoBakers (the (hire_times 1 (fresh\<lparr>money := 50\<rparr>))) = 1 \<and>
   autoBakerCost (the (hire_times 1 (fresh\<lparr>money := 50\<rparr>))) = 58"
  using hire_k_times [of "fresh\<lparr>money := 50\<rparr>" 1 "the (hire_times 1 (fresh\<lparr>money := 50\<rparr>))"]
  by (simp add: hireAutoBaker_def recalculateMoneyPerSecond_def fresh_defs)

text \<open>
  Three hires from 1000 money succeed and leave the cost at 78 (50, 58, 67, 78), while
  \<open>ceil(50 * 1.15^3)\<close> is 77.
\<close>

theorem hire_three_counterexample:
  "autoBakers (fresh\<lparr>money := 1000\<rparr>) = 0 \<and> autoBakerCost (fresh\<lparr>money := 1000\<rparr>) = 50 \<and>
   hire_times 3 (fresh\<lparr>money := 1000\<rparr>) \<noteq> None \<and>
   autoBakers (the (hire_times 3 (fresh\<lparr>money := 1000\<rparr>))) = 3 \<and>
   autoBakerCost (the (hire_times 3 (fresh\<lparr>money := 1000\<rparr>))) = 78 \<and>
   real_of_int \<lceil>(50::real) * 1.15 ^ 3\<rceil> = 77"
  by (simp add: numeral_3_eq_3 hireAutoBaker_def recalculateMoneyPerSecond_def fresh_defs
      power3_eq_cube double_eval)

section \<open>Purchasing an upgrade\<close>

text \<open>
  C6. When the upgrade exists, is below its maximum level and is affordable,
  \<open>purchaseUpgrade\<close> returns true, takes exactly \<open>currentCost\<close> from the money, raises the
  upgrade's level by one and sets its cost to \<open>Math.ceil(baseCost * Math.pow(1.1, level))\<close>
  for the new level, the ceiling of the double that the code computes; for a production
  upgrade every recipe's \<open>currentProduction\<close> becomes
  \<open>Math.ceil(baseProduction * Math.pow(bonus, level))\<close>, again of the double, with the
  upgrade's bonus and new level, and for the other kinds the recipes are untouched. With
  100 money in a fresh game, buying \<open>betterOven\<close> leaves 0 money, the oven at level 1 and
  each of the five recipes at \<open>ceil(baseProduction * 1.05^1)\<close>.
\<close>

theorem purchase_success:
  "(map_of (upgrades s) k = Some u \<and> upgrade_level u < maxLevel u \<and> currentCost u \<le> money s \<longrightarrow>
      fst (purchaseUpgrade k s) = True \<and>
      money (snd (purchaseUpgrade k s)) = money s - currentCost u \<and>
      map_of (upgrades (snd (purchaseUpgrade k s))) k =
        Some (u\<lparr> upgrade_level := upgrade_level u + 1,
                 currentCost :=
                   of_int \<lceil>js_times (baseCost u)
                             (Math_pow (double 1.1) (upgrade_level u + 1))\<rceil> \<rparr>) \<and>
      (upgrade_kind u = production \<longrightarrow>
         recipes (snd (purchaseUpgrade k s)) =
           map (\<lambda>(i, r). (i, r\<lparr>currentProduction :=
                  of_int \<lceil>js_times (baseProduction r)
                            (Math_pow (bonus u) (upgrade_level u + 1))\<rceil>\<rparr>)) (recipes s)) \<and>
      (upgrade_kind u \<noteq> production \<longrightarrow> recipes (snd (purchaseUpgrade k s)) = recipes s)) \<and>
   money (snd (purchaseUpgrade ''betterOven'' (fresh\<lparr>money := 100\<rparr>))) = 0 \<and>
   map_option upgrade_level
     (map_of (upgrades (snd (purchaseUpgrade ''betterOven'' (fresh\<lparr>money := 100\<rparr>))))
        ''betterOven'') = Some 1 \<and>
   list_all (\<lambda>kr. currentProduction (snd kr) = of_int \<lceil>baseProduction (snd kr) * 1.05 ^ 1\<rceil>)
     (recipes (snd (purchaseUpgrade ''betterOven'' (fresh\<lparr>money := 100\<rparr>)))) \<and>
   map fst (recipes (snd (purchaseUpgrade ''betterOven'' (fresh\<lparr>money := 100\<rparr>)))) =
     [''cookie'', ''brownie'', ''croissant'', ''cake'', ''donut'']"
  using purchase_effect [of s k u] better_oven_scenario better_oven_productions(1) by blast

text \<open>
  The oven upgrade bought with 210 money: 110 money left, level 1, the next level at 111,
  and the five recipes producing 2, 3, 6, 16 and 4.
\<close>

theorem purchase_success_witness:
  "fst (purchaseUpgrade ''betterOven'' (fresh\<lparr>money := 210\<rparr>)) = True \<and>
   money (snd (purchaseUpgrade ''betterOven'' (fresh\<lparr>money := 210\<rparr>))) = 110 \<and>
   map_option (\<lambda>u. (upgrade_level u, currentCost u))
     (map_of (upgrades (snd (purchaseUpgrade ''betterOven'' (fresh\<lparr>money := 210\<rparr>))))
        ''betterOven'') = Some (1, 111) \<and>
   map (\<lambda>kr. currentProduction (snd kr))
     (recipes (snd (purchaseUpgrade ''betterOven'' (fresh\<lparr>money := 210\<rparr>)))) = [2, 3, 6, 16, 4]"
  using purchase_success [of "fresh\<lparr>money := 210\<rparr>" "''betterOven''"
      "mk_upgrade ''betterOven'' ''Better Oven'' [CHR 0xF0, CHR 0x9F, CHR 0x94, CHR 0xA5] 10 100
         ''+5% production per level'' (double 1.05) production"]
  apply (simp add: fresh_defs)
  apply (simp add: double_eval)
  done

text \<open>
  After the first purchase of \<open>betterOven\<close> the code sets its cost to 111, where
  \<open>ceil(100 * 1.1^1)\<close> is 110: the double nearest to 1.1 lies above 1.1 and so does its
  product with 100, 110.00000000000001. With 210 money the first purchase leaves 110, and
  the second one is refused.
\<close>

theorem better_oven_cost_counterexample:
  "map_option currentCost
     (map_of (upgrades (snd (purchaseUpgrade ''betterOven'' (fresh\<lparr>money := 100\<rparr>))))
        ''betterOven'') = Some 111 \<and>
   \<lceil>(100::real) * 1.1 ^ 1\<rceil> = 110 \<and>
   money (snd (purchaseUpgrade ''betterOven'' (fresh\<lparr>money := 210\<rparr>))) = 110 \<and>
   fst (purchaseUpgrade ''betterOven''
          (snd (purchaseUpgrade ''betterOven'' (fresh\<lparr>money := 210\<rparr>)))) = False"
  apply (simp add: purchaseUpgrade_def applyUpgradeBonus_def Let_def fresh_defs)
  apply (simp add: double_eval)
  done

section \<open>Threshold milestones\<close>

text \<open>
  C7. After \<open>checkMilestones\<close>, each of \<open>firstBake\<close>, \<open>hundredBakes\<close> and
  \<open>thousandDollars\<close> is completed exactly when it was completed before or its threshold
  (\<open>totalBaked \<ge> 1\<close>, \<open>totalBaked \<ge> 100\<close>, \<open>totalMoneyEarned \<ge> 1000\<close>) is reached; \<open>money\<close>
  and \<open>totalMoneyEarned\<close> grow by 50 for each milestone completed by this call and by
  nothing else; a second \<open>checkMilestones\<close> changes nothing; and \<open>checkMilestones\<close> does
  return when the three milestones exist. After every \<open>GameState.bake\<close> that returns true,
  each milestone whose threshold is reached is completed. None of the operations of
  \<open>exec\<close> resets a completed milestone, so none is granted twice. In a fresh game one
  bake of the cookie returns true and leaves \<open>totalBaked = 1\<close>, \<open>firstBake\<close> completed and
  \<open>money = 61\<close>.
\<close>

theorem milestones_granted_once:
  "(checkMilestones s = Inr s' \<longrightarrow>
      totalBaked s' = totalBaked s \<and>
      is_completed ''firstBake'' s' = (is_completed ''firstBake'' s \<or> 1 \<le> totalBaked s) \<and>
      is_completed ''hundredBakes'' s' = (is_completed ''hundredBakes'' s \<or> 100 \<le> totalBaked s) \<and>
      is_completed ''thousandDollars'' s' =
        (is_completed ''thousandDollars'' s \<or> 1000 \<le> totalMoneyEarned s') \<and>
      (1000 \<le> totalMoneyEarned s \<longrightarrow> is_completed ''thousandDollars'' s') \<and>
      money s' = money s + 50 * (real (completed_count s') - real (completed_count s)) \<and>
      totalMoneyEarned s' =
        totalMoneyEarned s + 50 * (real (completed_count s') - real (completed_count s)) \<and>
      checkMilestones s' = Inr s') \<and>
   (well_formed s \<longrightarrow> (\<exists>u. checkMilestones s = Inr u)) \<and>
   (bake recipe a = Inr (True, b, r') \<longrightarrow>
      (1 \<le> totalBaked b \<longrightarrow> is_completed ''firstBake'' b) \<and>
      (100 \<le> totalBaked b \<longrightarrow> is_completed ''hundredBakes'' b) \<and>
      (1000 \<le> totalMoneyEarned b \<longrightarrow> is_completed ''thousandDollars'' b)) \<and>
   (exec x s = Inr t \<and> is_completed m s \<longrightarrow> is_completed m t) \<and>
   \<not> isl (bake (Held ''cookie'') fresh) \<and>
   fst (projr (bake (Held ''cookie'') fresh)) = True \<and>
   totalBaked (fst (snd (projr (bake (Held ''cookie'') fresh)))) = 1 \<and>
   is_completed ''firstBake'' (fst (snd (projr (bake (Held ''cookie'') fresh)))) \<and>
   money (fst (snd (projr (bake (Held ''cookie'') fresh)))) = 61"
proof -
  have "checkMilestones s = Inr s' \<longrightarrow>
      totalBaked s' = totalBaked s \<and>
      is_completed ''firstBake'' s' = (is_completed ''firstBake'' s \<or> 1 \<le> totalBaked s) \<and>
      is_completed ''hundredBakes'' s' = (is_completed ''hundredBakes'' s \<or> 100 \<le> totalBaked s) \<and>
      is_completed ''thousandDollars'' s' =
        (is_completed ''thousandDollars'' s \<or> 1000 \<le> totalMoneyEarned s') \<and>
      (1000 \<le> totalMoneyEarned s \<longrightarrow> is_completed ''thousandDollars'' s') \<and>
      money s' = money s + 50 * (real (completed_count s') - real (completed_count s)) \<and>
      totalMoneyEarned s' =
        totalMoneyEarned s + 50 * (real (completed_count s') - real (completed_count s)) \<and>
      checkMilestones s' = Inr s'"
    using checkMilestones_effect [of s s'] checkMilestones_settled [of s s'] by blast
  moreover have "exec x s = Inr t \<and> is_completed m s \<longrightarrow> is_completed m t"
    using exec_keeps_completed by blast
  moreover have "well_formed s \<longrightarrow> (\<exists>u. checkMilestones s = Inr u)"
    using checkMilestones_total [of s] by (simp add: well_formed_def)
  moreover have "bake recipe a = Inr (True, b, r') \<longrightarrow>
      (1 \<le> totalBaked b \<longrightarrow> is_completed ''firstBake'' b) \<and>
      (100 \<le> totalBaked b \<longrightarrow> is_completed ''hundredBakes'' b) \<and>
      (1000 \<le> totalMoneyEarned b \<longrightarrow> is_completed ''thousandDollars'' b)"
    using bake_leaves_settled [of recipe a b r'] by blast
  ultimately show ?thesis using first_bake_scenario by blast
qed

text \<open>
  With 100 bakes and 960 earned, one call completes all three milestones: the two bake
  bonuses lift the earnings over 1000. The money grows by 150, and a second call grants
  nothing.
\<close>

theorem milestones_granted_once_witness:
  "checkMilestones (fresh\<lparr>totalBaked := 100, totalMoneyEarned := 960\<rparr>) =
     Inr (projr (checkMilestones (fresh\<lparr>totalBaked := 100, totalMoneyEarned := 960\<rparr>))) \<and>
   completed_count (projr (checkMilestones (fresh\<lparr>totalBaked := 100, totalMoneyEarned := 960\<rparr>))) = 3 \<and>
   money (projr (checkMilestones (fresh\<lparr>totalBaked := 100, totalMoneyEarned := 960\<rparr>))) = 160 \<and>
   totalMoneyEarned (projr (checkMilestones (fresh\<lparr>totalBaked := 100, totalMoneyEarned := 960\<rparr>))) = 1110 \<and>
   checkMilestones (projr (checkMilestones (fresh\<lparr>totalBaked := 100, totalMoneyEarned := 960\<rparr>))) =
     Inr (projr (checkMilestones (fresh\<lparr>totalBaked := 100, totalMoneyEarned := 960\<rparr>)))"
proof -
  let ?s = "fresh\<lparr>totalBaked := 100, totalMoneyEarned := 960\<rparr>"
  have r: "checkMilestones ?s = Inr (projr (checkMilestones ?s))"
    by (simp add: fresh_defs milestone_defs)
  have c: "completed_count ?s = 0" "money ?s = 10" "totalMoneyEarned ?s = 960"
    by (simp_all add: fresh_defs completed_count_def is_completed_def)
  have "completed_count (projr (checkMilestones ?s)) = 3"
    by (simp add: fresh_defs milestone_defs completed_count_def)
  with r c milestones_granted_once [of ?s "projr (checkMilestones ?s)"] show ?thesis
    by simp
qed

section \<open>Hiring an auto-baker and the cached rate\<close>




section \<open>The milestone that is never completed\<close>

text \<open>
  C9. Whatever sequence of operations (either bake, unlock, either upgrade, hire,
  recalculate, tick, offline progress, milestone check) is run on an initialised game, the
  run goes through without an exception, and in the state it reaches the milestone
  \<open>allRecipesUnlocked\<close> is present with \<open>completed = false\<close>.
\<close>

theorem master_baker_never_completed:
  "\<exists>s'. run ops (initialize t1 t2 (GameState_literal t0)) = Inr s' \<and>
         map_option completed (map_of (milestones s') ''allRecipesUnlocked'') = Some False"
proof -
  have "well_formed (initialize t1 t2 (GameState_literal t0))"
    by (simp add: well_formed_def initialize_def initializeMilestones_def initializeUpgrades_def
        initializeRecipes_def initial_recipes_def initial_milestones_def)
  from run_total_master [OF this, of ops] show ?thesis
    by (auto simp: initialize_def initializeMilestones_def initializeUpgrades_def
        initializeRecipes_def initial_milestones_def)
qed

text \<open>
  Unlocking the four locked recipes and baking once: all five recipes are unlocked, the
  first bake is rewarded, and \<open>allRecipesUnlocked\<close> is still not completed.
\<close>

theorem master_baker_never_completed_witness:
  "\<not> isl (run [UnlockRecipe ''brownie'', UnlockRecipe ''croissant'', UnlockRecipe ''cake'',
               UnlockRecipe ''donut'', Bake Absent, CheckMilestones] fresh) \<and>
   list_all (\<lambda>kr. unlocked (snd kr))
     (recipes (projr (run [UnlockRecipe ''brownie'', UnlockRecipe ''croissant'',
                           UnlockRecipe ''cake'', UnlockRecipe ''donut'', Bake Absent,
                           CheckMilestones] fresh))) \<and>
   is_completed ''firstBake''
     (projr (run [UnlockRecipe ''brownie'', UnlockRecipe ''croissant'',
                  UnlockRecipe ''cake'', UnlockRecipe ''donut'', Bake Absent,
                  CheckMilestones] fresh)) \<and>
   \<not> is_completed ''allRecipesUnlocked''
     (projr (run [UnlockRecipe ''brownie'', UnlockRecipe ''croissant'',
                  UnlockRecipe ''cake'', UnlockRecipe ''donut'', Bake Absent,
                  CheckMilestones] fresh))"
proof -
  let ?ops = "[UnlockRecipe ''brownie'', UnlockRecipe ''croissant'', UnlockRecipe ''cake'',
               UnlockRecipe ''donut'', Bake Absent, CheckMilestones]"
  from master_baker_never_completed [of ?ops 0 0 0] obtain s' where
    r: "run ?ops fresh = Inr s'" and
    m: "map_option completed (map_of (milestones s') ''allRecipesUnlocked'') = Some False"
    unfolding fresh_def by blast
  from m have "\<not> is_completed ''allRecipesUnlocked'' s'"
    by (auto simp: is_completed_def)
  moreover have "list_all (\<lambda>kr. unlocked (snd kr)) (recipes (projr (run ?ops fresh)))"
    and "is_completed ''firstBake'' (projr (run ?ops fresh))"
    by (simp_all add: fresh_defs unlockRecipe_def bake_def bake_held_def credit_bake_def
        baked_def milestone_defs)
  ultimately show ?thesis using r by simp
qed

section \<open>The recipe-scoped bake and the milestones\<close>

text \<open>
  C10. A successful \<open>Recipes.bakeRecipe\<close> leaves the milestones as they are and adds to
  \<open>money\<close> and \<open>totalMoneyEarned\<close> the recipe's \<open>currentProduction\<close> and nothing more. In a
  fresh game it takes \<open>totalBaked\<close> from 0 to 1 with \<open>firstBake\<close> still open and the money
  at 11, where \<open>GameState.bake\<close> completes \<open>firstBake\<close> and leaves the money at 61.
\<close>

theorem bakeRecipe_skips_milestones:
  "(fst (bakeRecipe k s) \<longrightarrow>
      milestones (snd (bakeRecipe k s)) = milestones s \<and>
      totalBaked (snd (bakeRecipe k s)) = totalBaked s + 1 \<and>
      (\<exists>r. map_of (recipes s) k = Some r \<and> unlocked r \<and>
           money (snd (bakeRecipe k s)) = money s + currentProduction r \<and>
           totalMoneyEarned (snd (bakeRecipe k s)) = totalMoneyEarned s + currentProduction r)) \<and>
   totalBaked fresh = 0 \<and>
   fst (bakeRecipe ''cookie'' fresh) = True \<and>
   totalBaked (snd (bakeRecipe ''cookie'' fresh)) = 1 \<and>
   \<not> is_completed ''firstBake'' (snd (bakeRecipe ''cookie'' fresh)) \<and>
   money (snd (bakeRecipe ''cookie'' fresh)) = 11 \<and>
   is_completed ''firstBake'' (fst (snd (projr (bake (Held ''cookie'') fresh)))) \<and>
   money (fst (snd (projr (bake (Held ''cookie'') fresh)))) = 61"
proof -
  have "fst (bakeRecipe k s) \<longrightarrow>
      milestones (snd (bakeRecipe k s)) = milestones s \<and>
      totalBaked (snd (bakeRecipe k s)) = totalBaked s + 1 \<and>
      (\<exists>r. map_of (recipes s) k = Some r \<and> unlocked r \<and>
           money (snd (bakeRecipe k s)) = money s + currentProduction r \<and>
           totalMoneyEarned (snd (bakeRecipe k s)) = totalMoneyEarned s + currentProduction r)"
    by (auto simp: bakeRecipe_def credit_bake_def split: option.splits)
  then show ?thesis
    using first_bakeRecipe_scenario first_bake_scenario by blast
qed

text \<open>
  With 999 earned, a cookie baked through \<open>Recipes.bakeRecipe\<close> brings the earnings to
  1000 and \<open>thousandDollars\<close> stays open.
\<close>

theorem bakeRecipe_skips_milestones_witness:
  "fst (bakeRecipe ''cookie'' (fresh\<lparr>totalMoneyEarned := 999\<rparr>)) = True \<and>
   totalMoneyEarned (snd (bakeRecipe ''cookie'' (fresh\<lparr>totalMoneyEarned := 999\<rparr>))) = 1000 \<and>
   money (snd (bakeRecipe ''cookie'' (fresh\<lparr>totalMoneyEarned := 999\<rparr>))) = 11 \<and>
   milestones (snd (bakeRecipe ''cookie'' (fresh\<lparr>totalMoneyEarned := 999\<rparr>))) = milestones fresh \<and>
   \<not> is_completed ''thousandDollars'' (snd (bakeRecipe ''cookie'' (fresh\<lparr>totalMoneyEarned := 999\<rparr>)))"
proof -
  let ?s = "fresh\<lparr>totalMoneyEarned := 999\<rparr>"
  have ok: "fst (bakeRecipe ''cookie'' ?s)"
    by (simp add: bakeRecipe_def fresh_defs)
  have "map_of (recipes ?s) ''cookie'' =
      Some (mk_recipe ''cookie'' ''Sugar Cookie'' [CHR 0xF0, CHR 0x9F, CHR 0x8D, CHR 0xAA] 1 2 1 True 10)"
    by (simp add: fresh_defs)
  with ok bakeRecipe_skips_milestones [of "''cookie''" ?s] show ?thesis
    by (auto simp: is_completed_def fresh_defs)
qed

end
